theory Spec2Isabelle
  imports Complex_Main "HOL-Library.Sublist" "HOL-Library.AList" "HOL-Library.List_Lexorder"
    "HOL-Library.Char_ord"
begin

section \<open>Python values used by the tools\<close>

text \<open>
  The tools of \<^verbatim>\<open>paper_tools.py\<close>, \<^verbatim>\<open>file_tools.py\<close> and \<^verbatim>\<open>bash_tools.py\<close>
  take and return Python \<^verbatim>\<open>str\<close> and \<^verbatim>\<open>int\<close> values. A \<^verbatim>\<open>str\<close> is modelled as a
  \<^typ>\<open>string\<close> whose characters are the code points 0 to 255 (ASCII and Latin-1), an
  \<^verbatim>\<open>int\<close> as an \<^typ>\<open>int\<close>. An exception is a value of \<open>exn\<close>; all of them are
  instances of Python's \<^verbatim>\<open>Exception\<close>, and \<open>str_exn\<close> is \<^verbatim>\<open>str(e)\<close>.
\<close>

datatype exn =
    TimeoutExpired string
  | ZeroDivisionError string
  | IndexError string
  | KeyError string
  | ValueError string
  | UnboundLocalError string
  | OSError string

primrec str_exn :: "exn \<Rightarrow> string" where
  "str_exn (TimeoutExpired m) = m"
| "str_exn (ZeroDivisionError m) = m"
| "str_exn (IndexError m) = m"
| "str_exn (KeyError m) = m"
| "str_exn (ValueError m) = m"
| "str_exn (UnboundLocalError m) = m"
| "str_exn (OSError m) = m"

primrec is_TimeoutExpired :: "exn \<Rightarrow> bool" where
  "is_TimeoutExpired (TimeoutExpired m) = True"
| "is_TimeoutExpired (ZeroDivisionError m) = False"
| "is_TimeoutExpired (IndexError m) = False"
| "is_TimeoutExpired (KeyError m) = False"
| "is_TimeoutExpired (ValueError m) = False"
| "is_TimeoutExpired (UnboundLocalError m) = False"
| "is_TimeoutExpired (OSError m) = False"

abbreviation newline :: string where
  "newline \<equiv> [CHR 0x0A]"

text \<open>\<^verbatim>\<open>str(n)\<close> for an integer, and the format \<^verbatim>\<open>{n:4d}\<close> (right-aligned, width 4).\<close>

fun str_nat :: "nat \<Rightarrow> string" where
  "str_nat n =
     (if n < 10 then [''0123456789'' ! n]
      else str_nat (n div 10) @ [''0123456789'' ! (n mod 10)])"

declare str_nat.simps [simp del]

definition str_int :: "int \<Rightarrow> string" where
  "str_int i = (if i < 0 then ''-'' @ str_nat (nat (- i)) else str_nat (nat i))"

definition fmt4d :: "int \<Rightarrow> string" where
  "fmt4d i = (let s = str_int i in replicate (4 - length s) (CHR '' '') @ s)"

text \<open>
  The slice \<^verbatim>\<open>xs[a:b]\<close>: a negative bound counts from the end, and both bounds are
  cut to the list, so a slice never raises.
\<close>

definition py_slice :: "'a list \<Rightarrow> int \<Rightarrow> int \<Rightarrow> 'a list" where
  "py_slice xs a b =
     (let n = int (length xs);
          lo = (if a < 0 then max 0 (a + n) else min a n);
          hi = (if b < 0 then max 0 (b + n) else min b n)
      in take (nat (hi - lo)) (drop (nat lo) xs))"

text \<open>\<^verbatim>\<open>range(a, b)\<close> as the list of its elements.\<close>

definition py_range :: "int \<Rightarrow> int \<Rightarrow> int list" where
  "py_range a b = map (\<lambda>k. a + int k) [0..<nat (b - a)]"

text \<open>\<^verbatim>\<open>xs.index(x)\<close>: the position of the first element equal to \<open>x\<close>.\<close>

fun index :: "'a list \<Rightarrow> 'a \<Rightarrow> nat" where
  "index [] x = 0"
| "index (y # ys) x = (if x = y then 0 else Suc (index ys x))"

text \<open>\<^verbatim>\<open>sep.join(xs)\<close>.\<close>

fun join :: "string \<Rightarrow> string list \<Rightarrow> string" where
  "join sep [] = []"
| "join sep [x] = x"
| "join sep (x # y # ys) = x @ sep @ join sep (y # ys)"

text \<open>
  \<^verbatim>\<open>str.isspace\<close> on one character, which is also what the pattern \<^verbatim>\<open>\s\<close> matches,
  and the characters at which \<^verbatim>\<open>str.splitlines\<close> breaks a line.
\<close>

definition isspace :: "char \<Rightarrow> bool" where
  "isspace c = ((of_char c :: nat) \<in> {9, 10, 11, 12, 13, 28, 29, 30, 31, 32, 133, 160})"

definition is_linebreak :: "char \<Rightarrow> bool" where
  "is_linebreak c = ((of_char c :: nat) \<in> {10, 11, 12, 13, 28, 29, 30, 133})"

definition strip :: "string \<Rightarrow> string" where
  "strip s = rev (dropWhile isspace (rev (dropWhile isspace s)))"

text \<open>\<^verbatim>\<open>str.lower\<close>: the letters A-Z and the upper-case letters of Latin-1 move by 32.\<close>

definition lower_char :: "char \<Rightarrow> char" where
  "lower_char c =
     (let n = (of_char c :: nat)
      in if (65 \<le> n \<and> n \<le> 90) \<or> (192 \<le> n \<and> n \<le> 222 \<and> n \<noteq> 215)
         then char_of (n + 32) else c)"

definition lower :: "string \<Rightarrow> string" where
  "lower s = map lower_char s"

text \<open>
  \<^verbatim>\<open>f.readlines()\<close> cuts the text after every newline and keeps the newline;
  \<^verbatim>\<open>content.splitlines()\<close> cuts at every line break (a carriage return followed by a
  newline is one break), drops the breaks, and gives no empty last line.
\<close>

fun readlines :: "string \<Rightarrow> string list" where
  "readlines [] = []"
| "readlines (c # cs) =
     (if c = CHR 0x0A then [c] # readlines cs
      else (case readlines cs of [] \<Rightarrow> [[c]] | l # ls \<Rightarrow> (c # l) # ls))"

fun splitlines_from :: "string \<Rightarrow> string \<Rightarrow> string list" where
  "splitlines_from cur [] = (if cur = [] then [] else [cur])"
| "splitlines_from cur [c] =
     (if is_linebreak c then [cur] else [cur @ [c]])"
| "splitlines_from cur (c # d # cs) =
     (if c = CHR 0x0D \<and> d = CHR 0x0A then cur # splitlines_from [] cs
      else if is_linebreak c then cur # splitlines_from [] (d # cs)
      else splitlines_from (cur @ [c]) (d # cs))"

definition splitlines :: "string \<Rightarrow> string list" where
  "splitlines content = splitlines_from [] content"

section \<open>The markdown tools: what they compute from the lines of the file\<close>

subsection \<open>\<^verbatim>\<open>read_markdown_pages\<close>\<close>

definition total_pages :: "int \<Rightarrow> int \<Rightarrow> int" where
  "total_pages total_lines lines_per_page =
     (total_lines + lines_per_page - 1) div lines_per_page"

definition page_lines :: "string list \<Rightarrow> int \<Rightarrow> int \<Rightarrow> string list" where
  "page_lines lines page_num lines_per_page =
     (let total_lines = int (length lines);
          start_idx = (page_num - 1) * lines_per_page;
          end_idx = min (page_num * lines_per_page) total_lines
      in py_slice lines start_idx end_idx)"

definition numbered :: "int \<Rightarrow> string list \<Rightarrow> string" where
  "numbered start_line ls =
     concat (map (\<lambda>(i, line). fmt4d (start_line + int i) @ '' | '' @ line) (enumerate 0 ls))"

definition page_entry :: "int \<Rightarrow> int \<Rightarrow> int \<Rightarrow> string" where
  "page_entry total_lines lines_per_page i =
     (let start_line = (i - 1) * lines_per_page + 1;
          end_line = min (i * lines_per_page) total_lines
      in ''Page '' @ str_int i @ '': Lines '' @ str_int start_line @ ''-'' @ str_int end_line
           @ newline)"

definition read_markdown_pages_text ::
  "string \<Rightarrow> string list \<Rightarrow> int option \<Rightarrow> int \<Rightarrow> exn + string" where
  "read_markdown_pages_text file_path lines page_num lines_per_page =
     (if lines_per_page = 0 then Inl (ZeroDivisionError ''integer division or modulo by zero'')
      else
        let total_lines = int (length lines);
            pages = total_pages total_lines lines_per_page
        in case page_num of
             None \<Rightarrow>
               Inr (''=== File: '' @ file_path @ '' ===\<newline>''
                 @ ''Total lines: '' @ str_int total_lines @ newline
                 @ ''Lines per page: '' @ str_int lines_per_page @ newline
                 @ ''Total pages: '' @ str_int pages @ ''\<newline>\<newline>''
                 @ concat (map (page_entry total_lines lines_per_page) (py_range 1 (pages + 1))))
           | Some p \<Rightarrow>
               if p < 1 \<or> p > pages
               then Inr (''Error: Page '' @ str_int p @ '' is out of range. File has ''
                      @ str_int pages @ '' pages.'')
               else
                 let start_idx = (p - 1) * lines_per_page;
                     end_idx = min (p * lines_per_page) total_lines;
                     start_line = start_idx + 1;
                     end_line = end_idx
                 in Inr (''=== Page '' @ str_int p @ ''/'' @ str_int pages @ '' from ''
                      @ file_path @ '' ===\<newline>''
                      @ ''Lines '' @ str_int start_line @ ''-'' @ str_int end_line @ '' of ''
                      @ str_int total_lines @ ''\<newline>\<newline>''
                      @ numbered start_line (page_lines lines p lines_per_page)))"

subsection \<open>\<^verbatim>\<open>read_markdown_lines\<close>\<close>

definition selected_lines :: "string list \<Rightarrow> int \<Rightarrow> int option \<Rightarrow> string list" where
  "selected_lines lines start_line end_line =
     (let total_lines = int (length lines);
          start_idx = max 0 (start_line - 1);
          end_idx = (case end_line of None \<Rightarrow> total_lines | Some e \<Rightarrow> min total_lines e)
      in py_slice lines start_idx end_idx)"

definition line_numbers :: "string list \<Rightarrow> int \<Rightarrow> int option \<Rightarrow> int list" where
  "line_numbers lines start_line end_line =
     py_range start_line
       (min (start_line + int (length (selected_lines lines start_line end_line)))
            (int (length lines) + 1))"

text \<open>
  The rows of a loop that may raise: the text built up to the first exception is lost
  with it.
\<close>

fun collect :: "(exn + string) list \<Rightarrow> exn + string" where
  "collect [] = Inr []"
| "collect (Inl e # rs) = Inl e"
| "collect (Inr s # rs) = (case collect rs of Inl e \<Rightarrow> Inl e | Inr t \<Rightarrow> Inr (s @ t))"

definition read_markdown_lines_text ::
  "string \<Rightarrow> string list \<Rightarrow> int \<Rightarrow> int option \<Rightarrow> exn + string" where
  "read_markdown_lines_text file_path lines start_line end_line =
     (let total_lines = int (length lines);
          start_idx = max 0 (start_line - 1)
      in if start_idx \<ge> total_lines
         then Inr (''Error: Start line '' @ str_int start_line @ '' is beyond file length (''
                @ str_int total_lines @ '' lines)'')
         else
           let selected = selected_lines lines start_line end_line;
               numbers = line_numbers lines start_line end_line
           in if numbers = [] then Inl (IndexError ''range object index out of range'')
              else
                case collect (map (\<lambda>(i, l).
                         if i < length numbers then Inr (fmt4d (numbers ! i) @ '' | '' @ l)
                         else Inl (IndexError ''range object index out of range''))
                       (enumerate 0 selected)) of
                  Inl e \<Rightarrow> Inl e
                | Inr rows \<Rightarrow>
                    Inr (''=== Lines '' @ str_int (hd numbers) @ ''-'' @ str_int (last numbers)
                      @ '' from '' @ file_path @ '' ===\<newline>''
                      @ ''Total file lines: '' @ str_int total_lines @ ''\<newline>\<newline>''
                      @ rows))"

subsection \<open>\<^verbatim>\<open>read_markdown_sections\<close>\<close>

text \<open>
  \<^verbatim>\<open>re.match(r'^(#{1,6})\s+(.+)$', line)\<close> on a line that \<^verbatim>\<open>splitlines\<close> produced, so
  one without a line break in it: one to six \<^verbatim>\<open>#\<close>, then white space, then at least one
  more character. When only white space follows the \<^verbatim>\<open>#\<close>s, the pattern gives its last
  character to the second group. The result is the two groups.
\<close>

definition header_match :: "string \<Rightarrow> (string \<times> string) option" where
  "header_match l =
     (let hashes = takeWhile (\<lambda>c. c = CHR ''#'') l;
          rest = dropWhile (\<lambda>c. c = CHR ''#'') l;
          spaces = takeWhile isspace rest;
          title = dropWhile isspace rest
      in if length hashes < 1 \<or> 6 < length hashes \<or> spaces = [] then None
         else if title \<noteq> [] then Some (hashes, title)
         else if 2 \<le> length spaces then Some (hashes, [last spaces])
         else None)"

record section_info =
  name :: string
  level :: nat
  line :: nat

type_synonym section_entry = "section_info \<times> string"

text \<open>
  The loop over the lines. Its state is \<^verbatim>\<open>sections\<close>, \<^verbatim>\<open>current_section\<close> and
  \<^verbatim>\<open>current_content\<close>; \<open>lines\<close> is the whole list, in which \<^verbatim>\<open>lines.index(line)\<close>
  looks the line up (it is a line of that list, so the lookup finds it).
\<close>

fun scan_sections ::
  "string list \<Rightarrow> string list \<Rightarrow> section_entry list \<times> section_info option \<times> string list
     \<Rightarrow> section_entry list \<times> section_info option \<times> string list" where
  "scan_sections lines [] st = st"
| "scan_sections lines (l # rest) (sections, current_section, current_content) =
     (case header_match l of
        Some (hashes, title) \<Rightarrow>
          scan_sections lines rest
            ((case current_section of
                Some s \<Rightarrow> sections @ [(s, join newline current_content)]
              | None \<Rightarrow> sections),
             Some \<lparr>name = strip title, level = length hashes, line = index lines l + 1\<rparr>,
             [l])
      | None \<Rightarrow>
          (case current_section of
             Some s \<Rightarrow> scan_sections lines rest (sections, current_section, current_content @ [l])
           | None \<Rightarrow>
               scan_sections lines rest
                 (sections, None,
                  if current_content = [] then [l] else current_content @ [l])))"

definition parse_sections :: "string list \<Rightarrow> section_entry list" where
  "parse_sections lines =
     (case scan_sections lines lines ([], None, []) of
        (sections, current_section, current_content) \<Rightarrow>
          (case current_section of
             Some s \<Rightarrow> sections @ [(s, join newline current_content)]
           | None \<Rightarrow> sections))"

definition list_sections :: "string \<Rightarrow> section_entry list \<Rightarrow> string" where
  "list_sections file_path sections =
     ''=== Sections in '' @ file_path @ '' ===\<newline>\<newline>''
     @ (case sections of
          [] \<Rightarrow> []
        | (info, content) # _ \<Rightarrow>
            if name info = []
            then ''[Preamble] (Lines 1-'' @ str_int (int (line info) - 1) @ '')\<newline>''
            else [])
     @ concat (map (\<lambda>(info, content).
         if name info \<noteq> []
         then concat (replicate (level info - 1) ''  '') @ ''- '' @ name info
                @ '' (Line '' @ str_int (int (line info)) @ '')\<newline>''
         else []) sections)"

definition find_section :: "section_entry list \<Rightarrow> string \<Rightarrow> section_entry option" where
  "find_section sections section_name =
     List.find (\<lambda>(info, content).
       name info \<noteq> [] \<and> sublist (lower section_name) (lower (name info))) sections"

definition read_markdown_sections_text :: "string \<Rightarrow> string \<Rightarrow> string option \<Rightarrow> string" where
  "read_markdown_sections_text file_path content section_name =
     (let sections = parse_sections (splitlines content)
      in case section_name of
           None \<Rightarrow> list_sections file_path sections
         | Some wanted \<Rightarrow>
             (case find_section sections wanted of
                Some (info, text) \<Rightarrow>
                  ''=== Section: '' @ name info @ '' ===\<newline>''
                  @ ''Line: '' @ str_int (int (line info)) @ '', Level: ''
                  @ str_int (int (level info)) @ ''\<newline>\<newline>''
                  @ text
              | None \<Rightarrow> ''Error: Section '' @ [CHR 0x27] @ wanted @ [CHR 0x27]
                          @ '' not found in file''))"

subsection \<open>\<^verbatim>\<open>search_markdown_content\<close>\<close>

definition line_matches :: "string \<Rightarrow> string \<Rightarrow> bool" where
  "line_matches search_term l = sublist (lower search_term) (lower l)"

definition context_text :: "string list \<Rightarrow> nat \<Rightarrow> int \<Rightarrow> string" where
  "context_text lines i context_lines =
     (let start_line = max 0 (int i - context_lines);
          end_line = min (int (length lines)) (int i + context_lines + 1);
          context_lines_list = py_slice lines start_line end_line;
          match_line_in_context = int i - start_line
      in concat (map (\<lambda>(j, ctx_line).
           (if int j = match_line_in_context then ''>>> '' else ''    '')
           @ fmt4d (start_line + int j + 1) @ '' | '' @ ctx_line)
         (enumerate 0 context_lines_list)))"

definition search_matches :: "string list \<Rightarrow> string \<Rightarrow> int \<Rightarrow> (int \<times> string) list" where
  "search_matches lines search_term context_lines =
     map (\<lambda>(i, l). (int i + 1, context_text lines i context_lines))
       (filter (\<lambda>(i, l). line_matches search_term l) (enumerate 0 lines))"

definition search_markdown_content_text ::
  "string \<Rightarrow> string list \<Rightarrow> string \<Rightarrow> int \<Rightarrow> string" where
  "search_markdown_content_text file_path lines search_term context_lines =
     (let matches = search_matches lines search_term context_lines
      in if matches = []
         then ''No matches found for '' @ [CHR 0x27] @ search_term @ [CHR 0x27] @ '' in ''
                @ file_path
         else
           ''=== Search Results for '' @ [CHR 0x27] @ search_term @ [CHR 0x27] @ '' in ''
             @ file_path @ '' ===\<newline>''
           @ ''Found '' @ str_int (int (length matches)) @ '' match''
             @ (if length matches \<noteq> 1 then ''es'' else [])
             @ ''\<newline>\<newline>''
           @ concat (map (\<lambda>(i, (line_num, context)).
               ''Match '' @ str_int (int i) @ '' (Line '' @ str_int line_num @ ''):\<newline>''
               @ context @ newline) (enumerate 1 matches)))"


section \<open>The operating system as the tools see it\<close>

text \<open>
  The tools of \<^verbatim>\<open>file_tools.py\<close> and \<^verbatim>\<open>bash_tools.py\<close>, and the file access of
  \<^verbatim>\<open>paper_tools.py\<close>, call the Python library: \<^verbatim>\<open>open\<close>, \<^verbatim>\<open>os\<close>, \<^verbatim>\<open>shutil\<close>,
  \<^verbatim>\<open>pathlib\<close>, \<^verbatim>\<open>subprocess\<close>, \<^verbatim>\<open>shlex\<close>. A call runs in a state of the world \<open>'w\<close>
  (the file system, the processes, the environment), returns a value or raises an
  exception, and leaves a new state: an action of type \<open>('a, 'w) io\<close>. The library is
  a record of such actions, a parameter of every tool, so that what is proved of a tool
  holds whatever the library does.
\<close>

type_synonym ('a, 'w) io = "'w \<Rightarrow> (exn + 'a) \<times> 'w"

definition io_return :: "'a \<Rightarrow> ('a, 'w) io" where
  "io_return x = (\<lambda>w. (Inr x, w))"

definition io_raise :: "exn \<Rightarrow> ('a, 'w) io" where
  "io_raise e = (\<lambda>w. (Inl e, w))"

definition io_bind :: "('a, 'w) io \<Rightarrow> ('a \<Rightarrow> ('b, 'w) io) \<Rightarrow> ('b, 'w) io" where
  "io_bind m f = (\<lambda>w. case m w of (Inl e, w') \<Rightarrow> (Inl e, w') | (Inr x, w') \<Rightarrow> f x w')"

definition io_get :: "('w \<Rightarrow> 'a) \<Rightarrow> ('a, 'w) io" where
  "io_get f = (\<lambda>w. (Inr (f w), w))"

definition io_lift :: "exn + 'a \<Rightarrow> ('a, 'w) io" where
  "io_lift r = (case r of Inl e \<Rightarrow> io_raise e | Inr x \<Rightarrow> io_return x)"

text \<open>\<^verbatim>\<open>try: m except Exception as e: h(e)\<close>. Every exception of the model is an \<^verbatim>\<open>Exception\<close>.\<close>

definition io_try :: "('a, 'w) io \<Rightarrow> (exn \<Rightarrow> ('a, 'w) io) \<Rightarrow> ('a, 'w) io" where
  "io_try m h = (\<lambda>w. case m w of (Inl e, w') \<Rightarrow> h e w' | (Inr x, w') \<Rightarrow> (Inr x, w'))"

text \<open>A \<^verbatim>\<open>for\<close> loop whose body calls the library: it stops at the first exception.\<close>

primrec io_map :: "('a \<Rightarrow> ('b, 'w) io) \<Rightarrow> 'a list \<Rightarrow> ('b list, 'w) io" where
  "io_map f [] = io_return []"
| "io_map f (x # xs) = io_bind (f x) (\<lambda>y. io_bind (io_map f xs) (\<lambda>ys. io_return (y # ys)))"

record completed_process =
  stdout :: string
  stderr :: string
  returncode :: int

text \<open>
  The fields of \<^verbatim>\<open>os.stat\<close> that \<^verbatim>\<open>get_file_info\<close> prints. The three times are floating
  point numbers; the record holds them as Python prints them.
\<close>

record stat_result =
  st_size :: int
  st_ctime :: string
  st_mtime :: string
  st_atime :: string

record 'w platform =
  os_path_exists :: "string \<Rightarrow> 'w \<Rightarrow> bool"
  os_path_isdir :: "string \<Rightarrow> 'w \<Rightarrow> bool"
  os_path_isfile :: "string \<Rightarrow> 'w \<Rightarrow> bool"
  open_read :: "string \<Rightarrow> (string, 'w) io"
  open_write :: "string \<Rightarrow> string \<Rightarrow> (unit, 'w) io"
  os_makedirs :: "string \<Rightarrow> (unit, 'w) io"
  os_listdir :: "string \<Rightarrow> (string list, 'w) io"
  os_path_getsize :: "string \<Rightarrow> (int, 'w) io"
  os_remove :: "string \<Rightarrow> (unit, 'w) io"
  os_stat :: "string \<Rightarrow> (stat_result, 'w) io"
  os_getcwd :: "(string, 'w) io"
  os_chdir :: "string \<Rightarrow> (unit, 'w) io"
  shutil_rmtree :: "string \<Rightarrow> (unit, 'w) io"
  shutil_copytree :: "string \<Rightarrow> string \<Rightarrow> (unit, 'w) io"
  shutil_copy2 :: "string \<Rightarrow> string \<Rightarrow> (unit, 'w) io"
  shutil_move :: "string \<Rightarrow> string \<Rightarrow> (unit, 'w) io"
  path_suffix :: "string \<Rightarrow> string"
  path_parent :: "string \<Rightarrow> string"
  path_rglob :: "string \<Rightarrow> string \<Rightarrow> (string list, 'w) io"
  subprocess_run :: "string \<Rightarrow> string option \<Rightarrow> int option \<Rightarrow> (completed_process, 'w) io"
  subprocess_Popen :: "string \<Rightarrow> (nat, 'w) io"
  communicate :: "nat \<Rightarrow> string \<Rightarrow> int \<Rightarrow> (string \<times> string, 'w) io"
  process_returncode :: "nat \<Rightarrow> 'w \<Rightarrow> int"
  process_kill :: "nat \<Rightarrow> (unit, 'w) io"
  shlex_split :: "string \<Rightarrow> exn + string list"
  os_environ_get :: "string \<Rightarrow> 'w \<Rightarrow> string option"
  os_environ_set :: "string \<Rightarrow> string \<Rightarrow> (unit, 'w) io"
  os_environ_keys :: "'w \<Rightarrow> string list"

text \<open>
  \<open>open_read p\<close> is \<^verbatim>\<open>open(p, 'r', encoding='utf-8')\<close> followed by \<^verbatim>\<open>f.read()\<close>;
  \<^verbatim>\<open>f.readlines()\<close> is \<open>readlines\<close> of that text. \<open>open_write p s\<close> is
  \<^verbatim>\<open>open(p, 'w', encoding='utf-8')\<close> followed by \<^verbatim>\<open>f.write(s)\<close>. \<open>os_makedirs\<close> is called
  with \<^verbatim>\<open>exist_ok=True\<close>. \<open>subprocess_run command cwd timeout\<close> is
  \<^verbatim>\<open>subprocess.run(command, shell=True, capture_output=True, text=True)\<close> with the two
  optional arguments; it kills the process itself before it raises \<^verbatim>\<open>TimeoutExpired\<close>.
  A process started by \<open>subprocess_Popen\<close> is known by a number. \<open>path_suffix\<close>,
  \<open>path_parent\<close> and \<open>path_rglob\<close> are \<^verbatim>\<open>Path(p).suffix\<close>, \<^verbatim>\<open>str(Path(p).parent)\<close> and
  the paths of \<^verbatim>\<open>Path(p).rglob(pattern)\<close> as strings.
\<close>

subsection \<open>Pure helpers of the library\<close>

abbreviation quoted :: "string \<Rightarrow> string" where
  "quoted s \<equiv> CHR 0x27 # s @ [CHR 0x27]"

text \<open>\<^verbatim>\<open>os.path.dirname\<close> and \<^verbatim>\<open>os.path.join\<close> of two paths, as \<^verbatim>\<open>posixpath\<close> has them.\<close>

definition dirname :: "string \<Rightarrow> string" where
  "dirname p =
     (let head = rev (dropWhile (\<lambda>c. c \<noteq> CHR ''/'') (rev p))
      in if head \<noteq> [] \<and> (\<exists>c \<in> set head. c \<noteq> CHR ''/'')
         then rev (dropWhile (\<lambda>c. c = CHR ''/'') (rev head)) else head)"

definition path_join :: "string \<Rightarrow> string \<Rightarrow> string" where
  "path_join a b =
     (if b \<noteq> [] \<and> hd b = CHR ''/'' then b
      else if a = [] \<or> last a = CHR ''/'' then a @ b
      else a @ ''/'' @ b)"

text \<open>\<^verbatim>\<open>str(x)\<close> of a value that may be \<^verbatim>\<open>None\<close>, and \<^verbatim>\<open>a or b\<close> on such values.\<close>

definition str_optional :: "string option \<Rightarrow> string" where
  "str_optional v = (case v of None \<Rightarrow> ''None'' | Some s \<Rightarrow> s)"

definition py_or :: "string option \<Rightarrow> string option \<Rightarrow> string option" where
  "py_or a b = (case a of None \<Rightarrow> b | Some s \<Rightarrow> if s = [] then b else a)"

text \<open>The text that the three command tools build from the output of the process.\<close>

definition command_output :: "string \<Rightarrow> string \<Rightarrow> string \<Rightarrow> int \<Rightarrow> string" where
  "command_output quiet out err code =
     (let output = (if out \<noteq> [] then ''STDOUT:\<newline>'' @ out else [])
                   @ (if err \<noteq> [] then ''\<newline>STDERR:\<newline>'' @ err else []);
          output = (if output = [] then quiet else output)
      in output @ ''\<newline>\<newline>Exit code: '' @ str_int code)"


section \<open>The tools of \<^verbatim>\<open>file_tools.py\<close>\<close>

text \<open>
  Every tool is \<^verbatim>\<open>try: <body> except Exception as e: return f"Error ...: {str(e)}"\<close>.
  The body is the definition \<open>_body\<close>; the tool wraps it in \<open>io_try\<close>.
\<close>

definition read_file_body :: "'w platform \<Rightarrow> string \<Rightarrow> (string, 'w) io" where
  "read_file_body os file_path = open_read os file_path"

definition read_file :: "'w platform \<Rightarrow> string \<Rightarrow> (string, 'w) io" where
  "read_file os file_path =
     io_try (read_file_body os file_path)
       (\<lambda>e. io_return (''Error reading file: '' @ str_exn e))"

definition write_file_body :: "'w platform \<Rightarrow> string \<Rightarrow> string \<Rightarrow> (string, 'w) io" where
  "write_file_body os file_path content =
     io_bind (os_makedirs os (dirname file_path)) (\<lambda>_.
     io_bind (open_write os file_path content) (\<lambda>_.
     io_return (''Successfully wrote to '' @ file_path)))"

definition write_file :: "'w platform \<Rightarrow> string \<Rightarrow> string \<Rightarrow> (string, 'w) io" where
  "write_file os file_path content =
     io_try (write_file_body os file_path content)
       (\<lambda>e. io_return (''Error writing file: '' @ str_exn e))"

definition list_entry :: "'w platform \<Rightarrow> string \<Rightarrow> string \<Rightarrow> (string + string, 'w) io" where
  "list_entry os dir_path item =
     (let item_path = path_join dir_path item
      in io_bind (io_get (os_path_isdir os item_path)) (\<lambda>isdir.
           if isdir then io_return (Inl (''[DIR] '' @ item))
           else io_bind (os_path_getsize os item_path) (\<lambda>sz.
                  io_return (Inr (''[FILE] '' @ item @ '' ('' @ str_int sz @ '' bytes)'')))))"

definition list_directory_body :: "'w platform \<Rightarrow> string \<Rightarrow> (string, 'w) io" where
  "list_directory_body os dir_path =
     io_bind (io_get (os_path_exists os dir_path)) (\<lambda>found.
     if \<not> found then io_return (''Directory '' @ quoted dir_path @ '' does not exist'')
     else
     io_bind (io_get (os_path_isdir os dir_path)) (\<lambda>isdir.
     if \<not> isdir then io_return (quoted dir_path @ '' is not a directory'')
     else
     io_bind (os_listdir os dir_path) (\<lambda>items.
     if items = [] then io_return (''Directory '' @ quoted dir_path @ '' is empty'')
     else
     io_bind (io_map (list_entry os dir_path) items) (\<lambda>entries.
     let dirs = [d. Inl d \<leftarrow> entries];
         files = [f. Inr f \<leftarrow> entries]
     in io_return (''Contents of '' @ quoted dir_path @ '':\<newline>\<newline>''
          @ (if dirs \<noteq> [] then ''Directories:\<newline>'' @ join newline dirs @ ''\<newline>\<newline>'' else [])
          @ (if files \<noteq> [] then ''Files:\<newline>'' @ join newline files else []))))))"

definition list_directory :: "'w platform \<Rightarrow> string \<Rightarrow> (string, 'w) io" where
  "list_directory os dir_path =
     io_try (list_directory_body os dir_path)
       (\<lambda>e. io_return (''Error listing directory: '' @ str_exn e))"

definition create_directory_body :: "'w platform \<Rightarrow> string \<Rightarrow> (string, 'w) io" where
  "create_directory_body os dir_path =
     io_bind (os_makedirs os dir_path) (\<lambda>_.
     io_return (''Successfully created directory '' @ quoted dir_path))"

definition create_directory :: "'w platform \<Rightarrow> string \<Rightarrow> (string, 'w) io" where
  "create_directory os dir_path =
     io_try (create_directory_body os dir_path)
       (\<lambda>e. io_return (''Error creating directory: '' @ str_exn e))"

definition delete_file_or_path_body :: "'w platform \<Rightarrow> string \<Rightarrow> (string, 'w) io" where
  "delete_file_or_path_body os path =
     io_bind (io_get (os_path_exists os path)) (\<lambda>found.
     if \<not> found then io_return (''Path '' @ quoted path @ '' does not exist'')
     else
     io_bind (io_get (os_path_isdir os path)) (\<lambda>isdir.
     if isdir
     then io_bind (shutil_rmtree os path) (\<lambda>_.
            io_return (''Successfully deleted directory '' @ quoted path))
     else io_bind (os_remove os path) (\<lambda>_.
            io_return (''Successfully deleted file '' @ quoted path))))"

definition delete_file_or_path :: "'w platform \<Rightarrow> string \<Rightarrow> (string, 'w) io" where
  "delete_file_or_path os path =
     io_try (delete_file_or_path_body os path)
       (\<lambda>e. io_return (''Error deleting path: '' @ str_exn e))"

definition copy_file_or_path_body :: "'w platform \<Rightarrow> string \<Rightarrow> string \<Rightarrow> (string, 'w) io" where
  "copy_file_or_path_body os src dst =
     io_bind (io_get (os_path_exists os src)) (\<lambda>found.
     if \<not> found then io_return (''Source path '' @ quoted src @ '' does not exist'')
     else
     io_bind (io_get (os_path_isdir os src)) (\<lambda>isdir.
     if isdir
     then io_bind (shutil_copytree os src dst) (\<lambda>_.
            io_return (''Successfully copied directory from '' @ quoted src @ '' to ''
              @ quoted dst))
     else io_bind (shutil_copy2 os src dst) (\<lambda>_.
            io_return (''Successfully copied file from '' @ quoted src @ '' to ''
              @ quoted dst))))"

definition copy_file_or_path :: "'w platform \<Rightarrow> string \<Rightarrow> string \<Rightarrow> (string, 'w) io" where
  "copy_file_or_path os src dst =
     io_try (copy_file_or_path_body os src dst)
       (\<lambda>e. io_return (''Error copying: '' @ str_exn e))"

definition move_file_or_path_body :: "'w platform \<Rightarrow> string \<Rightarrow> string \<Rightarrow> (string, 'w) io" where
  "move_file_or_path_body os src dst =
     io_bind (io_get (os_path_exists os src)) (\<lambda>found.
     if \<not> found then io_return (''Source path '' @ quoted src @ '' does not exist'')
     else
     io_bind (shutil_move os src dst) (\<lambda>_.
     io_return (''Successfully moved from '' @ quoted src @ '' to '' @ quoted dst)))"

definition move_file_or_path :: "'w platform \<Rightarrow> string \<Rightarrow> string \<Rightarrow> (string, 'w) io" where
  "move_file_or_path os src dst =
     io_try (move_file_or_path_body os src dst)
       (\<lambda>e. io_return (''Error moving: '' @ str_exn e))"

definition get_file_info_body :: "'w platform \<Rightarrow> string \<Rightarrow> (string, 'w) io" where
  "get_file_info_body os file_path =
     io_bind (io_get (os_path_exists os file_path)) (\<lambda>found.
     if \<not> found then io_return (''Path '' @ quoted file_path @ '' does not exist'')
     else
     io_bind (os_stat os file_path) (\<lambda>stat.
     io_bind (io_get (os_path_isdir os file_path)) (\<lambda>isdir.
     io_bind (io_get (os_path_isfile os file_path)) (\<lambda>isfile.
     io_return (''Information for '' @ quoted file_path @ '':\<newline>\<newline>''
       @ ''Type: '' @ (if isdir then ''Directory'' else ''File'') @ newline
       @ ''Size: '' @ str_int (st_size stat) @ '' bytes\<newline>''
       @ ''Created: '' @ st_ctime stat @ newline
       @ ''Modified: '' @ st_mtime stat @ newline
       @ ''Accessed: '' @ st_atime stat @ newline
       @ (if isfile
          then ''Extension: '' @ path_suffix os file_path @ newline
               @ ''Parent directory: '' @ path_parent os file_path @ newline
          else []))))))"

definition get_file_info :: "'w platform \<Rightarrow> string \<Rightarrow> (string, 'w) io" where
  "get_file_info os file_path =
     io_try (get_file_info_body os file_path)
       (\<lambda>e. io_return (''Error getting file info: '' @ str_exn e))"

definition search_entry :: "'w platform \<Rightarrow> string \<Rightarrow> (string, 'w) io" where
  "search_entry os found_path =
     io_bind (io_get (os_path_isfile os found_path)) (\<lambda>isfile.
     if isfile
     then io_bind (os_stat os found_path) (\<lambda>stat.
            io_return (''[FILE] '' @ found_path @ '' ('' @ str_int (st_size stat)
              @ '' bytes)\<newline>''))
     else io_return (''[DIR] '' @ found_path @ newline))"

definition search_files_body :: "'w platform \<Rightarrow> string \<Rightarrow> string \<Rightarrow> (string, 'w) io" where
  "search_files_body os dir_path pattern =
     io_bind (io_get (os_path_exists os dir_path)) (\<lambda>found.
     if \<not> found then io_return (''Directory '' @ quoted dir_path @ '' does not exist'')
     else
     io_bind (io_get (os_path_isdir os dir_path)) (\<lambda>isdir.
     if \<not> isdir then io_return (quoted dir_path @ '' is not a directory'')
     else
     io_bind (path_rglob os dir_path pattern) (\<lambda>matches.
     if matches = []
     then io_return (''No files found matching pattern '' @ quoted pattern @ '' in ''
            @ quoted dir_path)
     else
     io_bind (io_map (search_entry os) matches) (\<lambda>rows.
     io_return (''Files matching pattern '' @ quoted pattern @ '' in '' @ quoted dir_path
       @ '':\<newline>\<newline>'' @ concat rows)))))"

definition search_files :: "'w platform \<Rightarrow> string \<Rightarrow> string \<Rightarrow> (string, 'w) io" where
  "search_files os dir_path pattern =
     io_try (search_files_body os dir_path pattern)
       (\<lambda>e. io_return (''Error searching files: '' @ str_exn e))"

definition get_current_working_directory_body :: "'w platform \<Rightarrow> (string, 'w) io" where
  "get_current_working_directory_body os = os_getcwd os"

definition get_current_working_directory :: "'w platform \<Rightarrow> (string, 'w) io" where
  "get_current_working_directory os =
     io_try (get_current_working_directory_body os)
       (\<lambda>e. io_return (''Error getting current directory: '' @ str_exn e))"

definition change_working_directory_body :: "'w platform \<Rightarrow> string \<Rightarrow> (string, 'w) io" where
  "change_working_directory_body os dir_path =
     io_bind (os_chdir os dir_path) (\<lambda>_.
     io_bind (os_getcwd os) (\<lambda>cwd.
     io_return (''Successfully changed directory to '' @ quoted dir_path
       @ ''. Current directory: '' @ cwd)))"

definition change_working_directory :: "'w platform \<Rightarrow> string \<Rightarrow> (string, 'w) io" where
  "change_working_directory os dir_path =
     io_try (change_working_directory_body os dir_path)
       (\<lambda>e. io_return (''Error changing directory: '' @ str_exn e))"


section \<open>The tools of \<^verbatim>\<open>bash_tools.py\<close>\<close>

text \<open>
  The three tools that run a command have two \<^verbatim>\<open>except\<close> clauses:
  \<^verbatim>\<open>subprocess.TimeoutExpired\<close> first, then \<^verbatim>\<open>Exception\<close>.
\<close>

definition execute_command_body :: "'w platform \<Rightarrow> string \<Rightarrow> (string, 'w) io" where
  "execute_command_body os command =
     io_bind (subprocess_run os command None (Some 30)) (\<lambda>result.
     io_return (command_output ''Command executed successfully with no output''
       (stdout result) (stderr result) (returncode result)))"

definition execute_command :: "'w platform \<Rightarrow> string \<Rightarrow> (string, 'w) io" where
  "execute_command os command =
     io_try (execute_command_body os command)
       (\<lambda>e. if is_TimeoutExpired e
            then io_return (''Command timed out after 30 seconds: '' @ command)
            else io_return (''Error executing command: '' @ str_exn e))"

definition execute_command_with_cwd_body ::
  "'w platform \<Rightarrow> string \<Rightarrow> string \<Rightarrow> (string, 'w) io" where
  "execute_command_with_cwd_body os command working_dir =
     io_bind (io_get (os_path_exists os working_dir)) (\<lambda>found.
     if \<not> found
     then io_return (''Working directory '' @ quoted working_dir @ '' does not exist'')
     else
     io_bind (io_get (os_path_isdir os working_dir)) (\<lambda>isdir.
     if \<not> isdir then io_return (quoted working_dir @ '' is not a directory'')
     else
     io_bind (subprocess_run os command (Some working_dir) (Some 30)) (\<lambda>result.
     io_return (''Command executed in directory: '' @ working_dir @ ''\<newline>\<newline>''
       @ (if stdout result \<noteq> [] then ''STDOUT:\<newline>'' @ stdout result else [])
       @ (if stderr result \<noteq> [] then ''\<newline>STDERR:\<newline>'' @ stderr result else [])
       @ (if stdout result = [] \<and> stderr result = []
          then ''Command executed successfully with no output'' else [])
       @ ''\<newline>\<newline>Exit code: '' @ str_int (returncode result)))))"

definition execute_command_with_cwd ::
  "'w platform \<Rightarrow> string \<Rightarrow> string \<Rightarrow> (string, 'w) io" where
  "execute_command_with_cwd os command working_dir =
     io_try (execute_command_with_cwd_body os command working_dir)
       (\<lambda>e. if is_TimeoutExpired e
            then io_return (''Command timed out after 30 seconds: '' @ command)
            else io_return (''Error executing command: '' @ str_exn e))"

text \<open>
  \<^verbatim>\<open>execute_interactive_command\<close>: the clause for \<^verbatim>\<open>TimeoutExpired\<close> calls
  \<^verbatim>\<open>process.kill()\<close> before it returns. The variable \<^verbatim>\<open>process\<close> is bound once
  \<^verbatim>\<open>subprocess.Popen\<close> has returned; an exception raised inside an \<^verbatim>\<open>except\<close> clause is
  not caught by its sibling clause and leaves the function.
\<close>

definition interactive_after_Popen :: "'w platform \<Rightarrow> nat \<Rightarrow> (string, 'w) io" where
  "interactive_after_Popen os process =
     io_bind (communicate os process [] 10) (\<lambda>(out, err).
     io_bind (io_get (process_returncode os process)) (\<lambda>code.
     io_return (command_output ''Command executed with no output'' out err code)))"

definition execute_interactive_command_body :: "'w platform \<Rightarrow> string \<Rightarrow> (string, 'w) io" where
  "execute_interactive_command_body os command =
     io_bind (subprocess_Popen os command) (interactive_after_Popen os)"

definition interactive_except ::
  "'w platform \<Rightarrow> string \<Rightarrow> nat option \<Rightarrow> exn \<Rightarrow> (string, 'w) io" where
  "interactive_except os command process e =
     (if is_TimeoutExpired e
      then (case process of
              None \<Rightarrow>
                io_raise (UnboundLocalError
                  ''cannot access local variable 'process' where it is not associated with a value'')
            | Some p \<Rightarrow>
                io_bind (process_kill os p) (\<lambda>_.
                io_return (''Interactive command timed out after 10 seconds: '' @ command)))
      else io_return (''Error executing interactive command: '' @ str_exn e))"

definition execute_interactive_command :: "'w platform \<Rightarrow> string \<Rightarrow> (string, 'w) io" where
  "execute_interactive_command os command =
     (\<lambda>w. case subprocess_Popen os command w of
             (Inl e, w') \<Rightarrow> interactive_except os command None e w'
           | (Inr process, w') \<Rightarrow>
               io_try (interactive_after_Popen os process)
                 (interactive_except os command (Some process)) w')"

definition check_command_exists_body :: "'w platform \<Rightarrow> string \<Rightarrow> (string, 'w) io" where
  "check_command_exists_body os command =
     io_bind
       (if strip command \<noteq> []
        then io_bind (io_lift (shlex_split os command)) (\<lambda>tokens.
               case tokens of
                 [] \<Rightarrow> io_raise (IndexError ''list index out of range'')
               | t # _ \<Rightarrow> io_return t)
        else io_return [])
       (\<lambda>command_name.
     if command_name = [] then io_return ''No command provided''
     else
     io_bind (subprocess_run os (''which '' @ command_name) None None) (\<lambda>result.
     if returncode result = 0
     then io_return (''Command '' @ quoted command_name @ '' exists at: ''
            @ strip (stdout result))
     else io_return (''Command '' @ quoted command_name @ '' not found in PATH'')))"

definition check_command_exists :: "'w platform \<Rightarrow> string \<Rightarrow> (string, 'w) io" where
  "check_command_exists os command =
     io_try (check_command_exists_body os command)
       (\<lambda>e. io_return (''Error checking command: '' @ str_exn e))"

definition get_environment_variable_body :: "'w platform \<Rightarrow> string \<Rightarrow> (string, 'w) io" where
  "get_environment_variable_body os var_name =
     io_bind (io_get (os_environ_get os var_name)) (\<lambda>found.
     case found of
       Some v \<Rightarrow> io_return (var_name @ ''='' @ v)
     | None \<Rightarrow> io_return (''Environment variable '' @ quoted var_name @ '' is not set''))"

definition get_environment_variable :: "'w platform \<Rightarrow> string \<Rightarrow> (string, 'w) io" where
  "get_environment_variable os var_name =
     io_try (get_environment_variable_body os var_name)
       (\<lambda>e. io_return (''Error getting environment variable: '' @ str_exn e))"

definition set_environment_variable_body ::
  "'w platform \<Rightarrow> string \<Rightarrow> string \<Rightarrow> (string, 'w) io" where
  "set_environment_variable_body os var_name v =
     io_bind (os_environ_set os var_name v) (\<lambda>_.
     io_return (''Successfully set '' @ var_name @ ''='' @ v))"

definition set_environment_variable ::
  "'w platform \<Rightarrow> string \<Rightarrow> string \<Rightarrow> (string, 'w) io" where
  "set_environment_variable os var_name v =
     io_try (set_environment_variable_body os var_name v)
       (\<lambda>e. io_return (''Error setting environment variable: '' @ str_exn e))"

definition environment_row :: "'w platform \<Rightarrow> string \<Rightarrow> (string, 'w) io" where
  "environment_row os var_name =
     io_bind (io_get (os_environ_get os var_name)) (\<lambda>found.
     case found of
       Some v \<Rightarrow> io_return (var_name @ ''='' @ v @ newline)
     | None \<Rightarrow> io_raise (KeyError (quoted var_name)))"

definition list_environment_variables_body :: "'w platform \<Rightarrow> (string, 'w) io" where
  "list_environment_variables_body os =
     io_bind (io_get (os_environ_keys os)) (\<lambda>keys.
     io_bind (io_map (environment_row os) (sort keys)) (\<lambda>rows.
     io_return (''Environment Variables:\<newline>\<newline>'' @ concat rows)))"

definition list_environment_variables :: "'w platform \<Rightarrow> (string, 'w) io" where
  "list_environment_variables os =
     io_try (list_environment_variables_body os)
       (\<lambda>e. io_return (''Error listing environment variables: '' @ str_exn e))"

definition get_current_user_body :: "'w platform \<Rightarrow> (string, 'w) io" where
  "get_current_user_body os =
     io_bind (io_get (\<lambda>w. py_or (os_environ_get os ''USER'' w)
                              (os_environ_get os ''USERNAME'' w))) (\<lambda>username.
     io_bind (io_get (\<lambda>w. py_or (os_environ_get os ''HOME'' w)
                              (os_environ_get os ''USERPROFILE'' w))) (\<lambda>home_dir.
     io_bind (os_getcwd os) (\<lambda>cwd.
     io_return (''Current User Information:\<newline>\<newline>''
       @ ''Username: '' @ str_optional username @ newline
       @ ''Home Directory: '' @ str_optional home_dir @ newline
       @ ''Current Working Directory: '' @ cwd @ newline))))"

definition get_current_user :: "'w platform \<Rightarrow> (string, 'w) io" where
  "get_current_user os =
     io_try (get_current_user_body os)
       (\<lambda>e. io_return (''Error getting user information: '' @ str_exn e))"

section \<open>The tools of \<^verbatim>\<open>paper_tools.py\<close>\<close>

definition read_markdown_lines_body ::
  "'w platform \<Rightarrow> string \<Rightarrow> int \<Rightarrow> int option \<Rightarrow> (string, 'w) io" where
  "read_markdown_lines_body os file_path start_line end_line =
     io_bind (io_get (os_path_exists os file_path)) (\<lambda>found.
     if \<not> found then io_return (''Error: File '' @ quoted file_path @ '' does not exist'')
     else
     io_bind (open_read os file_path) (\<lambda>content.
     io_lift (read_markdown_lines_text file_path (readlines content) start_line end_line)))"

definition read_markdown_lines ::
  "'w platform \<Rightarrow> string \<Rightarrow> int \<Rightarrow> int option \<Rightarrow> (string, 'w) io" where
  "read_markdown_lines os file_path start_line end_line =
     io_try (read_markdown_lines_body os file_path start_line end_line)
       (\<lambda>e. io_return (''Error reading markdown lines: '' @ str_exn e))"

definition read_markdown_pages_body ::
  "'w platform \<Rightarrow> string \<Rightarrow> int option \<Rightarrow> int \<Rightarrow> (string, 'w) io" where
  "read_markdown_pages_body os file_path page_num lines_per_page =
     io_bind (io_get (os_path_exists os file_path)) (\<lambda>found.
     if \<not> found then io_return (''Error: File '' @ quoted file_path @ '' does not exist'')
     else
     io_bind (open_read os file_path) (\<lambda>content.
     io_lift (read_markdown_pages_text file_path (readlines content) page_num lines_per_page)))"

definition read_markdown_pages ::
  "'w platform \<Rightarrow> string \<Rightarrow> int option \<Rightarrow> int \<Rightarrow> (string, 'w) io" where
  "read_markdown_pages os file_path page_num lines_per_page =
     io_try (read_markdown_pages_body os file_path page_num lines_per_page)
       (\<lambda>e. io_return (''Error reading markdown pages: '' @ str_exn e))"

definition read_markdown_sections_body ::
  "'w platform \<Rightarrow> string \<Rightarrow> string option \<Rightarrow> (string, 'w) io" where
  "read_markdown_sections_body os file_path section_name =
     io_bind (io_get (os_path_exists os file_path)) (\<lambda>found.
     if \<not> found then io_return (''Error: File '' @ quoted file_path @ '' does not exist'')
     else
     io_bind (open_read os file_path) (\<lambda>content.
     io_return (read_markdown_sections_text file_path content section_name)))"

definition read_markdown_sections ::
  "'w platform \<Rightarrow> string \<Rightarrow> string option \<Rightarrow> (string, 'w) io" where
  "read_markdown_sections os file_path section_name =
     io_try (read_markdown_sections_body os file_path section_name)
       (\<lambda>e. io_return (''Error reading markdown sections: '' @ str_exn e))"

definition search_markdown_content_body ::
  "'w platform \<Rightarrow> string \<Rightarrow> string \<Rightarrow> int \<Rightarrow> (string, 'w) io" where
  "search_markdown_content_body os file_path search_term context_lines =
     io_bind (io_get (os_path_exists os file_path)) (\<lambda>found.
     if \<not> found then io_return (''Error: File '' @ quoted file_path @ '' does not exist'')
     else
     io_bind (open_read os file_path) (\<lambda>content.
     io_return (search_markdown_content_text file_path (readlines content) search_term
       context_lines)))"

definition search_markdown_content ::
  "'w platform \<Rightarrow> string \<Rightarrow> string \<Rightarrow> int \<Rightarrow> (string, 'w) io" where
  "search_markdown_content os file_path search_term context_lines =
     io_try (search_markdown_content_body os file_path search_term context_lines)
       (\<lambda>e. io_return (''Error searching markdown content: '' @ str_exn e))"


section \<open>The tool registries\<close>

text \<open>
  A call of a tool: one constructor for each entry of \<^verbatim>\<open>FILE_TOOLS\<close>, \<^verbatim>\<open>BASH_TOOLS\<close> and
  \<^verbatim>\<open>PAPER_TOOLS\<close>, in the order of the three lists, with the arguments of the call (the
  \<^verbatim>\<open>runtime\<close> argument, which no tool reads, is left out). \<open>try_body\<close> is the body of the
  tool's \<^verbatim>\<open>try\<close>, \<open>error_text\<close> the text before the colon in its
  \<^verbatim>\<open>except Exception\<close> clause, \<open>call_tool\<close> the tool itself.
\<close>

datatype tool_call =
    Read_file string
  | Write_file string string
  | List_directory string
  | Create_directory string
  | Delete_file_or_path string
  | Copy_file_or_path string string
  | Move_file_or_path string string
  | Get_file_info string
  | Search_files string string
  | Get_current_working_directory
  | Change_working_directory string
  | Execute_command string
  | Execute_command_with_cwd string string
  | Execute_interactive_command string
  | Check_command_exists string
  | Get_environment_variable string
  | Set_environment_variable string string
  | List_environment_variables
  | Get_current_user
  | Read_markdown_lines string int "int option"
  | Read_markdown_pages string "int option" int
  | Read_markdown_sections string "string option"
  | Search_markdown_content string string int

fun call_tool :: "'w platform \<Rightarrow> tool_call \<Rightarrow> (string, 'w) io" where
  "call_tool os (Read_file p) = read_file os p"
| "call_tool os (Write_file p c) = write_file os p c"
| "call_tool os (List_directory d) = list_directory os d"
| "call_tool os (Create_directory d) = create_directory os d"
| "call_tool os (Delete_file_or_path p) = delete_file_or_path os p"
| "call_tool os (Copy_file_or_path s d) = copy_file_or_path os s d"
| "call_tool os (Move_file_or_path s d) = move_file_or_path os s d"
| "call_tool os (Get_file_info p) = get_file_info os p"
| "call_tool os (Search_files d pat) = search_files os d pat"
| "call_tool os Get_current_working_directory = get_current_working_directory os"
| "call_tool os (Change_working_directory d) = change_working_directory os d"
| "call_tool os (Execute_command c) = execute_command os c"
| "call_tool os (Execute_command_with_cwd c d) = execute_command_with_cwd os c d"
| "call_tool os (Execute_interactive_command c) = execute_interactive_command os c"
| "call_tool os (Check_command_exists c) = check_command_exists os c"
| "call_tool os (Get_environment_variable n) = get_environment_variable os n"
| "call_tool os (Set_environment_variable n v) = set_environment_variable os n v"
| "call_tool os List_environment_variables = list_environment_variables os"
| "call_tool os Get_current_user = get_current_user os"
| "call_tool os (Read_markdown_lines p a b) = read_markdown_lines os p a b"
| "call_tool os (Read_markdown_pages p n k) = read_markdown_pages os p n k"
| "call_tool os (Read_markdown_sections p n) = read_markdown_sections os p n"
| "call_tool os (Search_markdown_content p t k) = search_markdown_content os p t k"

fun try_body :: "'w platform \<Rightarrow> tool_call \<Rightarrow> (string, 'w) io" where
  "try_body os (Read_file p) = read_file_body os p"
| "try_body os (Write_file p c) = write_file_body os p c"
| "try_body os (List_directory d) = list_directory_body os d"
| "try_body os (Create_directory d) = create_directory_body os d"
| "try_body os (Delete_file_or_path p) = delete_file_or_path_body os p"
| "try_body os (Copy_file_or_path s d) = copy_file_or_path_body os s d"
| "try_body os (Move_file_or_path s d) = move_file_or_path_body os s d"
| "try_body os (Get_file_info p) = get_file_info_body os p"
| "try_body os (Search_files d pat) = search_files_body os d pat"
| "try_body os Get_current_working_directory = get_current_working_directory_body os"
| "try_body os (Change_working_directory d) = change_working_directory_body os d"
| "try_body os (Execute_command c) = execute_command_body os c"
| "try_body os (Execute_command_with_cwd c d) = execute_command_with_cwd_body os c d"
| "try_body os (Execute_interactive_command c) = execute_interactive_command_body os c"
| "try_body os (Check_command_exists c) = check_command_exists_body os c"
| "try_body os (Get_environment_variable n) = get_environment_variable_body os n"
| "try_body os (Set_environment_variable n v) = set_environment_variable_body os n v"
| "try_body os List_environment_variables = list_environment_variables_body os"
| "try_body os Get_current_user = get_current_user_body os"
| "try_body os (Read_markdown_lines p a b) = read_markdown_lines_body os p a b"
| "try_body os (Read_markdown_pages p n k) = read_markdown_pages_body os p n k"
| "try_body os (Read_markdown_sections p n) = read_markdown_sections_body os p n"
| "try_body os (Search_markdown_content p t k) = search_markdown_content_body os p t k"

fun error_text :: "tool_call \<Rightarrow> string" where
  "error_text (Read_file p) = ''Error reading file''"
| "error_text (Write_file p c) = ''Error writing file''"
| "error_text (List_directory d) = ''Error listing directory''"
| "error_text (Create_directory d) = ''Error creating directory''"
| "error_text (Delete_file_or_path p) = ''Error deleting path''"
| "error_text (Copy_file_or_path s d) = ''Error copying''"
| "error_text (Move_file_or_path s d) = ''Error moving''"
| "error_text (Get_file_info p) = ''Error getting file info''"
| "error_text (Search_files d pat) = ''Error searching files''"
| "error_text Get_current_working_directory = ''Error getting current directory''"
| "error_text (Change_working_directory d) = ''Error changing directory''"
| "error_text (Execute_command c) = ''Error executing command''"
| "error_text (Execute_command_with_cwd c d) = ''Error executing command''"
| "error_text (Execute_interactive_command c) = ''Error executing interactive command''"
| "error_text (Check_command_exists c) = ''Error checking command''"
| "error_text (Get_environment_variable n) = ''Error getting environment variable''"
| "error_text (Set_environment_variable n v) = ''Error setting environment variable''"
| "error_text List_environment_variables = ''Error listing environment variables''"
| "error_text Get_current_user = ''Error getting user information''"
| "error_text (Read_markdown_lines p a b) = ''Error reading markdown lines''"
| "error_text (Read_markdown_pages p n k) = ''Error reading markdown pages''"
| "error_text (Read_markdown_sections p n) = ''Error reading markdown sections''"
| "error_text (Search_markdown_content p t k) = ''Error searching markdown content''"

text \<open>The tools with a clause for \<^verbatim>\<open>subprocess.TimeoutExpired\<close>.\<close>

fun runs_command :: "tool_call \<Rightarrow> bool" where
  "runs_command (Execute_command c) = True"
| "runs_command (Execute_command_with_cwd c d) = True"
| "runs_command (Execute_interactive_command c) = True"
| "runs_command _ = False"


section \<open>A simulated platform\<close>

text \<open>
  One platform to run the tools on: a file store in memory, a table of programs, and
  an environment. The file store maps a path, taken literally (no normalisation, no
  links), to a file with its stored text or to a directory. Reading a file in text mode
  turns the line ends \<^verbatim>\<open>\r\n\<close> and \<^verbatim>\<open>\r\<close> into \<^verbatim>\<open>\n\<close> (Python's universal newlines);
  writing stores the text as it is (the line separator of POSIX). A program is a command
  line with the seconds it runs and what it prints; a command that is not in the table is answered
  by the shell with exit code 127, naming its first word.
\<close>

datatype node = File string | Dir

record world =
  sim_files :: "(string \<times> node) list"
  sim_cwd :: string
  sim_environ :: "(string \<times> string) list"
  sim_programs :: "(string \<times> nat \<times> completed_process) list"
  sim_started :: "string list"
  sim_killed :: "nat list"

definition enoent :: "string \<Rightarrow> exn" where
  "enoent p = OSError (''[Errno 2] No such file or directory: '' @ quoted p)"

definition enotdir :: "string \<Rightarrow> exn" where
  "enotdir p = OSError (''[Errno 20] Not a directory: '' @ quoted p)"

definition eisdir :: "string \<Rightarrow> exn" where
  "eisdir p = OSError (''[Errno 21] Is a directory: '' @ quoted p)"

definition eexist :: "string \<Rightarrow> exn" where
  "eexist p = OSError (''[Errno 17] File exists: '' @ quoted p)"

fun universal_newlines :: "string \<Rightarrow> string" where
  "universal_newlines [] = []"
| "universal_newlines [c] = (if c = CHR 0x0D then [CHR 0x0A] else [c])"
| "universal_newlines (c # d # cs) =
     (if c = CHR 0x0D \<and> d = CHR 0x0A then CHR 0x0A # universal_newlines cs
      else if c = CHR 0x0D then CHR 0x0A # universal_newlines (d # cs)
      else c # universal_newlines (d # cs))"

definition basename :: "string \<Rightarrow> string" where
  "basename p = rev (takeWhile (\<lambda>c. c \<noteq> CHR ''/'') (rev p))"

definition below :: "string \<Rightarrow> string \<Rightarrow> bool" where
  "below d k = (prefix (path_join d []) k \<and> length (path_join d []) < length k)"

definition sim_open_read :: "string \<Rightarrow> (string, world) io" where
  "sim_open_read p w =
     (case map_of (sim_files w) p of
        None \<Rightarrow> (Inl (enoent p), w)
      | Some Dir \<Rightarrow> (Inl (eisdir p), w)
      | Some (File stored) \<Rightarrow> (Inr (universal_newlines stored), w))"

definition sim_open_write :: "string \<Rightarrow> string \<Rightarrow> (unit, world) io" where
  "sim_open_write p s w =
     (if map_of (sim_files w) p = Some Dir then (Inl (eisdir p), w)
      else if dirname p \<noteq> [] \<and> map_of (sim_files w) (dirname p) \<noteq> Some Dir
      then (Inl (enoent p), w)
      else (Inr (), w\<lparr>sim_files := AList.update p (File s) (sim_files w)\<rparr>))"

definition ancestors :: "string \<Rightarrow> string list" where
  "ancestors p = [take i p. i \<leftarrow> [1..<length p], p ! i = CHR ''/'']"

fun make_all :: "string list \<Rightarrow> (string \<times> node) list \<Rightarrow> (exn + unit) \<times> (string \<times> node) list"
  where
  "make_all [] fs = (Inr (), fs)"
| "make_all (d # ds) fs =
     (case map_of fs d of
        Some Dir \<Rightarrow> make_all ds fs
      | Some (File c) \<Rightarrow> (Inl (enotdir d), fs)
      | None \<Rightarrow> make_all ds (AList.update d Dir fs))"

definition sim_makedirs :: "string \<Rightarrow> (unit, world) io" where
  "sim_makedirs p w =
     (if p = [] then (Inl (enoent p), w)
      else case map_of (sim_files w) p of
             Some Dir \<Rightarrow> (Inr (), w)
           | Some (File c) \<Rightarrow> (Inl (eexist p), w)
           | None \<Rightarrow>
               (case make_all (ancestors p @ [p]) (sim_files w) of
                  (r, fs) \<Rightarrow> (r, w\<lparr>sim_files := fs\<rparr>)))"

definition sim_listdir :: "string \<Rightarrow> (string list, world) io" where
  "sim_listdir p w =
     (case map_of (sim_files w) p of
        None \<Rightarrow> (Inl (enoent p), w)
      | Some (File c) \<Rightarrow> (Inl (enotdir p), w)
      | Some Dir \<Rightarrow>
          (Inr [drop (length (path_join p [])) k. (k, n) \<leftarrow> sim_files w, below p k,
                  CHR ''/'' \<notin> set (drop (length (path_join p [])) k)], w))"

definition sim_getsize :: "string \<Rightarrow> (int, world) io" where
  "sim_getsize p w =
     (case map_of (sim_files w) p of
        None \<Rightarrow> (Inl (enoent p), w)
      | Some Dir \<Rightarrow> (Inr 4096, w)
      | Some (File stored) \<Rightarrow> (Inr (int (length stored)), w))"

definition sim_stat :: "string \<Rightarrow> (stat_result, world) io" where
  "sim_stat p w =
     (case sim_getsize p w of
        (Inl e, w') \<Rightarrow> (Inl e, w')
      | (Inr n, w') \<Rightarrow>
          (Inr \<lparr>st_size = n, st_ctime = ''0.0'', st_mtime = ''0.0'', st_atime = ''0.0''\<rparr>, w'))"

definition sim_remove :: "string \<Rightarrow> (unit, world) io" where
  "sim_remove p w =
     (case map_of (sim_files w) p of
        None \<Rightarrow> (Inl (enoent p), w)
      | Some Dir \<Rightarrow> (Inl (eisdir p), w)
      | Some (File c) \<Rightarrow> (Inr (), w\<lparr>sim_files := AList.delete p (sim_files w)\<rparr>))"

definition sim_rmtree :: "string \<Rightarrow> (unit, world) io" where
  "sim_rmtree p w =
     (case map_of (sim_files w) p of
        None \<Rightarrow> (Inl (enoent p), w)
      | Some (File c) \<Rightarrow> (Inl (enotdir p), w)
      | Some Dir \<Rightarrow>
          (Inr (), w\<lparr>sim_files := filter (\<lambda>(k, n). k \<noteq> p \<and> \<not> below p k) (sim_files w)\<rparr>))"

definition sim_chdir :: "string \<Rightarrow> (unit, world) io" where
  "sim_chdir p w =
     (case map_of (sim_files w) p of
        None \<Rightarrow> (Inl (enoent p), w)
      | Some (File c) \<Rightarrow> (Inl (enotdir p), w)
      | Some Dir \<Rightarrow> (Inr (), w\<lparr>sim_cwd := p\<rparr>))"

text \<open>The entries of \<open>src\<close> and below it, under the name \<open>dst\<close>.\<close>

definition moved :: "string \<Rightarrow> string \<Rightarrow> (string \<times> node) list \<Rightarrow> (string \<times> node) list" where
  "moved src dst fs =
     [(dst @ drop (length src) k, n). (k, n) \<leftarrow> fs, k = src \<or> below src k]"

definition sim_copytree :: "string \<Rightarrow> string \<Rightarrow> (unit, world) io" where
  "sim_copytree src dst w =
     (if map_of (sim_files w) src \<noteq> Some Dir then (Inl (enotdir src), w)
      else if map_of (sim_files w) dst \<noteq> None then (Inl (eexist dst), w)
      else (Inr (), w\<lparr>sim_files := sim_files w @ moved src dst (sim_files w)\<rparr>))"

definition sim_copy2 :: "string \<Rightarrow> string \<Rightarrow> (unit, world) io" where
  "sim_copy2 src dst w =
     (case map_of (sim_files w) src of
        None \<Rightarrow> (Inl (enoent src), w)
      | Some Dir \<Rightarrow> (Inl (eisdir src), w)
      | Some (File stored) \<Rightarrow>
          (let target = (if map_of (sim_files w) dst = Some Dir
                         then path_join dst (basename src) else dst)
           in (Inr (), w\<lparr>sim_files := AList.update target (File stored) (sim_files w)\<rparr>)))"

definition renamed :: "string \<Rightarrow> string \<Rightarrow> (string \<times> node) list \<Rightarrow> (string \<times> node) list" where
  "renamed src target fs =
     filter (\<lambda>(k, n). k \<noteq> src \<and> \<not> below src k \<and> k \<noteq> target) fs @ moved src target fs"

text \<open>
  \<^verbatim>\<open>shutil.move\<close>: into \<open>dst\<close> when that is a directory (refused when the name is taken
  there), otherwise a rename, which replaces a file at \<open>dst\<close>; a directory cannot replace
  a file.
\<close>

definition sim_move :: "string \<Rightarrow> string \<Rightarrow> (unit, world) io" where
  "sim_move src dst w =
     (if map_of (sim_files w) src = None then (Inl (enoent src), w)
      else if map_of (sim_files w) dst = Some Dir
      then (let target = path_join dst (basename src)
            in if map_of (sim_files w) target \<noteq> None
               then (Inl (OSError (''Destination path '' @ quoted target @ '' already exists'')),
                     w)
               else (Inr (), w\<lparr>sim_files := renamed src target (sim_files w)\<rparr>))
      else if map_of (sim_files w) dst \<noteq> None \<and> map_of (sim_files w) src = Some Dir
      then (Inl (eexist dst), w)
      else (Inr (), w\<lparr>sim_files := renamed src dst (sim_files w)\<rparr>))"

definition sim_suffix :: "string \<Rightarrow> string" where
  "sim_suffix p =
     (let nm = basename p;
          ext = rev (takeWhile (\<lambda>c. c \<noteq> CHR ''.'') (rev nm))
      in if CHR ''.'' \<in> set nm \<and> ext \<noteq> [] \<and> length ext + 1 < length nm
         then CHR ''.'' # ext else [])"

definition sim_parent :: "string \<Rightarrow> string" where
  "sim_parent p = (if dirname p = [] then ''.'' else dirname p)"

text \<open>Matching a name against a pattern with \<^verbatim>\<open>*\<close> and \<^verbatim>\<open>?\<close>.\<close>

fun glob_match :: "string \<Rightarrow> string \<Rightarrow> bool" where
  "glob_match [] [] = True"
| "glob_match [] (c # cs) = False"
| "glob_match (p # ps) [] = (p = CHR ''*'' \<and> glob_match ps [])"
| "glob_match (p # ps) (c # cs) =
     (if p = CHR ''*'' then glob_match ps (c # cs) \<or> glob_match (p # ps) cs
      else (p = CHR ''?'' \<or> p = c) \<and> glob_match ps cs)"

text \<open>
  \<^verbatim>\<open>Path(d).rglob(pattern)\<close>: the entries below \<open>d\<close> whose name matches; with the empty
  pattern, \<open>d\<close> and the directories below it (Python 3.11).
\<close>

definition sim_rglob :: "string \<Rightarrow> string \<Rightarrow> (string list, world) io" where
  "sim_rglob d pattern w =
     (if pattern = []
      then (Inr (d # [k. (k, n) \<leftarrow> sim_files w, below d k, n = Dir]), w)
      else (Inr [k. (k, n) \<leftarrow> sim_files w, below d k, glob_match pattern (basename k)], w))"

text \<open>Running a program of the table under a time limit.\<close>

definition run_program ::
  "world \<Rightarrow> string \<Rightarrow> int option \<Rightarrow> exn + completed_process" where
  "run_program w command timeout =
     (case map_of (sim_programs w) command of
        None \<Rightarrow>
          Inr \<lparr>stdout = [],
               stderr = ''/bin/sh: 1: '' @ takeWhile (\<lambda>c. c \<noteq> CHR '' '') command
                          @ '': not found\<newline>'',
               returncode = 127\<rparr>
      | Some (seconds, result) \<Rightarrow>
          (case timeout of
             None \<Rightarrow> Inr result
           | Some t \<Rightarrow>
               if t < int seconds
               then Inl (TimeoutExpired (''Command '' @ quoted command @ '' timed out after ''
                      @ str_int t @ '' seconds''))
               else Inr result))"

definition sim_run :: "string \<Rightarrow> string option \<Rightarrow> int option \<Rightarrow> (completed_process, world) io"
  where
  "sim_run command dir timeout w = (run_program w command timeout, w)"

definition sim_Popen :: "string \<Rightarrow> (nat, world) io" where
  "sim_Popen command w =
     (Inr (length (sim_started w)), w\<lparr>sim_started := sim_started w @ [command]\<rparr>)"

definition sim_communicate :: "nat \<Rightarrow> string \<Rightarrow> int \<Rightarrow> (string \<times> string, world) io" where
  "sim_communicate process input timeout w =
     (if process < length (sim_started w)
      then (case run_program w (sim_started w ! process) (Some timeout) of
              Inl e \<Rightarrow> (Inl e, w)
            | Inr result \<Rightarrow> (Inr (stdout result, stderr result), w))
      else (Inl (ValueError ''no such process''), w))"

definition sim_returncode :: "nat \<Rightarrow> world \<Rightarrow> int" where
  "sim_returncode process w =
     (if process \<in> set (sim_killed w) \<or> length (sim_started w) \<le> process then - 9
      else (case run_program w (sim_started w ! process) None of
              Inl e \<Rightarrow> - 9
            | Inr result \<Rightarrow> returncode result))"

definition sim_kill :: "nat \<Rightarrow> (unit, world) io" where
  "sim_kill process w = (Inr (), w\<lparr>sim_killed := process # sim_killed w\<rparr>)"

text \<open>
  \<^verbatim>\<open>shlex.split\<close> (POSIX rules, no comments): blanks separate the words; single quotes
  keep everything up to the next single quote; double quotes keep everything up to the
  next double quote, a backslash before a double quote or a backslash standing for that
  character; outside quotes a backslash keeps the next character. A pair of quotes with
  nothing in it is an empty word. A quote left open and a backslash at the end are errors.
  The word in progress is \<open>None\<close> before it has begun.
\<close>

datatype lex_state = Plain | Single_quoted | Double_quoted

definition word_so_far :: "string option \<Rightarrow> string" where
  "word_so_far cur = (case cur of None \<Rightarrow> [] | Some t \<Rightarrow> t)"

fun shlex_from :: "lex_state \<Rightarrow> string option \<Rightarrow> string \<Rightarrow> exn + string list" where
  "shlex_from Plain cur [] = Inr (case cur of None \<Rightarrow> [] | Some t \<Rightarrow> [t])"
| "shlex_from Single_quoted cur [] = Inl (ValueError ''No closing quotation'')"
| "shlex_from Double_quoted cur [] = Inl (ValueError ''No closing quotation'')"
| "shlex_from Plain cur [c] =
     (if c = CHR '' '' \<or> c = CHR 0x09 \<or> c = CHR 0x0D \<or> c = CHR 0x0A
      then shlex_from Plain cur []
      else if c = CHR 0x5C then Inl (ValueError ''No escaped character'')
      else if c = CHR 0x27 then shlex_from Single_quoted (Some (word_so_far cur)) []
      else if c = CHR 0x22 then shlex_from Double_quoted (Some (word_so_far cur)) []
      else shlex_from Plain (Some (word_so_far cur @ [c])) [])"
| "shlex_from Plain cur (c # d # cs) =
     (if c = CHR '' '' \<or> c = CHR 0x09 \<or> c = CHR 0x0D \<or> c = CHR 0x0A
      then (case cur of
              None \<Rightarrow> shlex_from Plain None (d # cs)
            | Some t \<Rightarrow>
                (case shlex_from Plain None (d # cs) of
                   Inl e \<Rightarrow> Inl e
                 | Inr ts \<Rightarrow> Inr (t # ts)))
      else if c = CHR 0x5C then shlex_from Plain (Some (word_so_far cur @ [d])) cs
      else if c = CHR 0x27 then shlex_from Single_quoted (Some (word_so_far cur)) (d # cs)
      else if c = CHR 0x22 then shlex_from Double_quoted (Some (word_so_far cur)) (d # cs)
      else shlex_from Plain (Some (word_so_far cur @ [c])) (d # cs))"
| "shlex_from Single_quoted cur (c # cs) =
     (if c = CHR 0x27 then shlex_from Plain cur cs
      else shlex_from Single_quoted (Some (word_so_far cur @ [c])) cs)"
| "shlex_from Double_quoted cur [c] =
     (if c = CHR 0x22 then shlex_from Plain cur []
      else if c = CHR 0x5C then Inl (ValueError ''No escaped character'')
      else shlex_from Double_quoted (Some (word_so_far cur @ [c])) [])"
| "shlex_from Double_quoted cur (c # d # cs) =
     (if c = CHR 0x22 then shlex_from Plain cur (d # cs)
      else if c = CHR 0x5C
      then shlex_from Double_quoted
             (Some (word_so_far cur @ (if d = CHR 0x22 \<or> d = CHR 0x5C then [d] else [c, d]))) cs
      else shlex_from Double_quoted (Some (word_so_far cur @ [c])) (d # cs))"

definition sim_shlex_split :: "string \<Rightarrow> exn + string list" where
  "sim_shlex_split s = shlex_from Plain None s"

definition sim_os :: "world platform" where
  "sim_os =
     \<lparr>os_path_exists = (\<lambda>p w. map_of (sim_files w) p \<noteq> None),
      os_path_isdir = (\<lambda>p w. map_of (sim_files w) p = Some Dir),
      os_path_isfile = (\<lambda>p w. case map_of (sim_files w) p of Some (File c) \<Rightarrow> True | _ \<Rightarrow> False),
      open_read = sim_open_read,
      open_write = sim_open_write,
      os_makedirs = sim_makedirs,
      os_listdir = sim_listdir,
      os_path_getsize = sim_getsize,
      os_remove = sim_remove,
      os_stat = sim_stat,
      os_getcwd = (\<lambda>w. (Inr (sim_cwd w), w)),
      os_chdir = sim_chdir,
      shutil_rmtree = sim_rmtree,
      shutil_copytree = sim_copytree,
      shutil_copy2 = sim_copy2,
      shutil_move = sim_move,
      path_suffix = sim_suffix,
      path_parent = sim_parent,
      path_rglob = sim_rglob,
      subprocess_run = sim_run,
      subprocess_Popen = sim_Popen,
      communicate = sim_communicate,
      process_returncode = sim_returncode,
      process_kill = sim_kill,
      shlex_split = sim_shlex_split,
      os_environ_get = (\<lambda>n w. map_of (sim_environ w) n),
      os_environ_set = (\<lambda>n v w. (Inr (), w\<lparr>sim_environ := AList.update n v (sim_environ w)\<rparr>)),
      os_environ_keys = (\<lambda>w. map fst (sim_environ w))\<rparr>"


section \<open>Example inputs\<close>

text \<open>A file of 25 lines, \<^verbatim>\<open>a\<close> to \<^verbatim>\<open>y\<close>, as \<^verbatim>\<open>readlines\<close> returns them.\<close>

definition alphabet_lines :: "string list" where
  "alphabet_lines = map (\<lambda>c. [c] @ newline) ''abcdefghijklmnopqrstuvwxy''"

text \<open>A file of three lines.\<close>

definition greek_lines :: "string list" where
  "greek_lines = readlines ''Alpha\<newline>beta\<newline>gamma DATA\<newline>''"


text \<open>A file of five lines.\<close>

definition five_lines :: "string list" where
  "five_lines = readlines ''a\<newline>b\<newline>c\<newline>d\<newline>e\<newline>''"

text \<open>
  A state of the simulated platform: three files under \<^verbatim>\<open>/tmp\<close> (one of them with
  the line ends of DOS), two variables, and three programs, of which \<^verbatim>\<open>sleep 60\<close> runs
  for sixty seconds.
\<close>

definition demo_world :: world where
  "demo_world =
     \<lparr>sim_files =
        [(''/'', Dir), (''/tmp'', Dir),
         (''/tmp/notes.txt'', File ''Hello, World!\<newline>This is a test file.''),
         (''/tmp/dos.txt'', File (''a'' @ [CHR 0x0D, CHR 0x0A] @ ''b'')),
         (''/tmp/paper.md'', File ''intro\<newline># A\<newline>body\<newline>'')],
      sim_cwd = ''/tmp'',
      sim_environ = [(''USER'', ''agent''), (''HOME'', ''/home/agent'')],
      sim_programs =
        [(''echo hi'', 0, \<lparr>stdout = ''hi\<newline>'', stderr = [], returncode = 0\<rparr>),
         (''sleep 60'', 60, \<lparr>stdout = [], stderr = [], returncode = 0\<rparr>),
         (''ls /nonexistent'', 0,
          \<lparr>stdout = [],
           stderr = ''ls: cannot access '/nonexistent': No such file or directory\<newline>'',
           returncode = 2\<rparr>)],
      sim_started = [],
      sim_killed = []\<rparr>"

text \<open>A state of the simulated platform with the example files as markdown papers.\<close>

definition paper_world :: world where
  "paper_world =
     \<lparr>sim_files =
        [(''/'', Dir), (''/papers'', Dir),
         (''/papers/alphabet.md'', File (concat alphabet_lines)),
         (''/papers/five.md'', File (concat five_lines)),
         (''/papers/greek.md'', File (concat greek_lines))],
      sim_cwd = ''/papers'',
      sim_environ = [],
      sim_programs = [],
      sim_started = [],
      sim_killed = []\<rparr>"

section \<open>Properties of the markdown tools\<close>

subsection \<open>Pagination\<close>

lemma py_slice_nonneg:
  "0 \<le> a \<Longrightarrow> 0 \<le> b \<Longrightarrow> py_slice xs a b = take (nat b - nat a) (drop (nat a) xs)"
  by (auto simp: py_slice_def Let_def min_def nat_diff_distrib')

lemma total_pages_bounds:
  assumes "1 \<le> l"
  shows "n \<le> total_pages n l * l" and "(total_pages n l - 1) * l < n"
proof -
  let ?q = "(n + l - 1) div l" and ?r = "(n + l - 1) mod l"
  have e: "n + l - 1 = ?q * l + ?r" by simp
  have r: "0 \<le> ?r" "?r < l" using assms by simp_all
  have "?q * l = n + l - 1 - ?r" using e by linarith
  then show "n \<le> total_pages n l * l" using r by (simp add: total_pages_def)
  have "(?q - 1) * l = ?q * l - l" by (simp add: algebra_simps)
  then show "(total_pages n l - 1) * l < n" using e r unfolding total_pages_def by linarith
qed

lemma total_pages_ceiling:
  assumes "1 \<le> l"
  shows "total_pages n l = \<lceil>real_of_int n / real_of_int l\<rceil>"
proof -
  have l: "0 < real_of_int l" using assms by simp
  note b = total_pages_bounds[OF assms, of n]
  have "real_of_int n \<le> real_of_int (total_pages n l * l)" using b(1) by linarith
  then have 1: "real_of_int n / real_of_int l \<le> real_of_int (total_pages n l)"
    using l by (simp add: pos_divide_le_eq)
  have "real_of_int ((total_pages n l - 1) * l) < real_of_int n" using b(2) by linarith
  then have 2: "real_of_int (total_pages n l) - 1 < real_of_int n / real_of_int l"
    using l by (simp add: pos_less_divide_eq)
  show ?thesis using 1 2 by (simp add: ceiling_unique)
qed

lemma concat_chunks: "concat (map (\<lambda>q. take l (drop (q * l) xs)) [0..<m]) = take (m * l) xs"
proof (induction m)
  case 0
  then show ?case by simp
next
  case (Suc m)
  have "Suc m * l = m * l + l" by simp
  then have "take (Suc m * l) xs = take (m * l) xs @ take l (drop (m * l) xs)"
    by (simp only: take_add)
  with Suc show ?case by simp
qed

lemma page_lines_chunk:
  assumes "1 \<le> l"
  shows "page_lines xs (1 + int q) l = take (nat l) (drop (q * nat l) xs)"
proof -
  have a: "0 \<le> int q * l" using assms by simp
  have b: "0 \<le> min ((1 + int q) * l) (int (length xs))" using assms by simp
  have na: "nat (int q * l) = q * nat l" using assms by (simp add: nat_mult_distrib)
  have "page_lines xs (1 + int q) l =
      take (nat (min ((1 + int q) * l) (int (length xs))) - q * nat l) (drop (q * nat l) xs)"
    using py_slice_nonneg[OF a b, of xs] na by (simp add: page_lines_def Let_def)
  also have "\<dots> = take (nat l) (drop (q * nat l) xs)"
  proof (cases "(1 + int q) * l \<le> int (length xs)")
    case True
    have "nat ((1 + int q) * l) = (1 + q) * nat l" using assms by (simp add: nat_mult_distrib nat_add_distrib)
    then show ?thesis using True by (simp add: min_def algebra_simps)
  next
    case False
    then have "int (length xs) < (1 + int q) * l" by simp
    then have "length xs < nat ((1 + int q) * l)" by linarith
    moreover have "nat ((1 + int q) * l) = (1 + q) * nat l" using assms by (simp add: nat_mult_distrib nat_add_distrib)
    ultimately have "length xs - q * nat l \<le> nat l" by (simp add: algebra_simps)
    then show ?thesis using False by (simp add: min_def)
  qed
  finally show ?thesis .
qed

lemma pages_concat:
  assumes "1 \<le> l"
  shows "concat (map (\<lambda>p. page_lines xs p l) (py_range 1 (total_pages (int (length xs)) l + 1))) = xs"
proof -
  let ?tp = "total_pages (int (length xs)) l"
  have "concat (map (\<lambda>p. page_lines xs p l) (py_range 1 (?tp + 1)))
      = concat (map (\<lambda>q. take (nat l) (drop (q * nat l) xs)) [0..<nat ?tp])"
    using page_lines_chunk[OF assms] by (simp add: py_range_def comp_def)
  also have "\<dots> = take (nat ?tp * nat l) xs" by (rule concat_chunks)
  also have "\<dots> = xs"
  proof -
    have "int (length xs) \<le> ?tp * l" using total_pages_bounds(1)[OF assms] .
    moreover have "0 \<le> ?tp" using assms by (simp add: total_pages_def pos_imp_zdiv_nonneg_iff)
    ultimately have "length xs \<le> nat ?tp * nat l"
      using assms by (metis nat_int nat_mono nat_mult_distrib)
    then show ?thesis by simp
  qed
  finally show ?thesis .
qed

lemma slice_nth: "b \<le> length xs \<Longrightarrow> take (b - a) (drop a xs) = map ((!) xs) [a..<b]"
  by (rule nth_equalityI) auto

lemma page_lines_nth:
  assumes "1 \<le> l" and "1 \<le> p"
  shows "page_lines xs p l =
    map ((!) xs) [nat ((p - 1) * l)..<nat (min (p * l) (int (length xs)))]"
proof -
  have a: "0 \<le> (p - 1) * l" using assms by simp
  have b: "0 \<le> min (p * l) (int (length xs))" using assms by simp
  have le: "nat (min (p * l) (int (length xs))) \<le> length xs" by simp
  have "page_lines xs p l =
      take (nat (min (p * l) (int (length xs))) - nat ((p - 1) * l)) (drop (nat ((p - 1) * l)) xs)"
    using py_slice_nonneg[OF a b, of xs] by (simp add: page_lines_def Let_def)
  also have "\<dots> = map ((!) xs) [nat ((p - 1) * l)..<nat (min (p * l) (int (length xs)))]"
    by (rule slice_nth[OF le])
  finally show ?thesis .
qed

lemma concat_readlines: "concat (readlines s) = s"
proof (induction s)
  case Nil
  then show ?case by simp
next
  case (Cons c cs)
  then show ?case by (cases "readlines cs") (auto split: if_splits)
qed

lemma read_markdown_pages_on_file:
  assumes "os_path_exists os file_path w" and "open_read os file_path w = (Inr content, w')"
  shows "read_markdown_pages os file_path page_num lines_per_page w
    = (case read_markdown_pages_text file_path (readlines content) page_num lines_per_page of
         Inl e \<Rightarrow> (Inr (''Error reading markdown pages: '' @ str_exn e), w')
       | Inr s \<Rightarrow> (Inr s, w'))"
  using assms
  by (simp add: read_markdown_pages_def read_markdown_pages_body_def io_try_def io_bind_def
      io_get_def io_return_def io_lift_def io_raise_def split: sum.splits)

lemma pages_nth_concat:
  fixes xs :: "string list"
  assumes "1 \<le> l"
  shows "concat (map (\<lambda>p. map ((!) xs) [nat ((p - 1) * l)..<nat (min (p * l) (int (length xs)))])
           (py_range 1 (total_pages (int (length xs)) l + 1))) = xs"
proof -
  have eq: "map (\<lambda>p. map ((!) xs) [nat ((p - 1) * l)..<nat (min (p * l) (int (length xs)))])
          (py_range 1 (total_pages (int (length xs)) l + 1))
      = map (\<lambda>p. page_lines xs p l) (py_range 1 (total_pages (int (length xs)) l + 1))"
  proof (rule map_cong[OF refl])
    fix p assume "p \<in> set (py_range 1 (total_pages (int (length xs)) l + 1))"
    then have "1 \<le> p" by (auto simp: py_range_def)
    then show "map ((!) xs) [nat ((p - 1) * l)..<nat (min (p * l) (int (length xs)))]
        = page_lines xs p l"
      using page_lines_nth[OF assms, of p xs] by simp
  qed
  show ?thesis unfolding eq by (rule pages_concat[OF assms])
qed

text \<open>
  Claim C3. For a file that exists and that \<^verbatim>\<open>open\<close> reads, and every page size of at
  least 1: \<^verbatim>\<open>read_markdown_pages\<close> reports as the number of pages the ceiling of the
  number of lines over the page size; called without a page it lists, for each page
  \<open>i\<close> from 1 to that number, the lines \<open>(i - 1) * lines_per_page + 1\<close> to
  \<open>min (i * lines_per_page) total_lines\<close>; called with a page \<open>p\<close> in that range it returns
  exactly these lines of the file, numbered from the first; these ranges, one after the
  other, are the lines of the file, which joined are its text; and on a file of 25 lines
  with 10 lines a page, page 2 is reported as page 2 of 3 and holds lines 11 to 20.
\<close>

theorem read_markdown_pages_pagination:
  assumes "1 \<le> lines_per_page"
    and "os_path_exists os file_path w"
    and "open_read os file_path w = (Inr content, w')"
  shows "total_pages (int (length (readlines content))) lines_per_page
           = \<lceil>real (length (readlines content)) / real_of_int lines_per_page\<rceil>
       \<and> read_markdown_pages os file_path None lines_per_page w
           = (Inr (''=== File: '' @ file_path @ '' ===\<newline>''
                @ ''Total lines: '' @ str_int (int (length (readlines content))) @ newline
                @ ''Lines per page: '' @ str_int lines_per_page @ newline
                @ ''Total pages: ''
                @ str_int \<lceil>real (length (readlines content)) / real_of_int lines_per_page\<rceil>
                @ ''\<newline>\<newline>''
                @ concat (map (\<lambda>i. ''Page '' @ str_int i @ '': Lines ''
                      @ str_int ((i - 1) * lines_per_page + 1) @ ''-''
                      @ str_int (min (i * lines_per_page) (int (length (readlines content))))
                      @ newline)
                    (py_range 1
                      (\<lceil>real (length (readlines content)) / real_of_int lines_per_page\<rceil> + 1)))),
              w')
       \<and> (\<forall>p. 1 \<le> p
              \<and> p \<le> \<lceil>real (length (readlines content)) / real_of_int lines_per_page\<rceil> \<longrightarrow>
             read_markdown_pages os file_path (Some p) lines_per_page w
               = (Inr (''=== Page '' @ str_int p @ ''/''
                    @ str_int \<lceil>real (length (readlines content)) / real_of_int lines_per_page\<rceil>
                    @ '' from '' @ file_path @ '' ===\<newline>''
                    @ ''Lines '' @ str_int ((p - 1) * lines_per_page + 1) @ ''-''
                    @ str_int (min (p * lines_per_page) (int (length (readlines content))))
                    @ '' of '' @ str_int (int (length (readlines content))) @ ''\<newline>\<newline>''
                    @ concat (map (\<lambda>(i, l). fmt4d ((p - 1) * lines_per_page + 1 + int i)
                          @ '' | '' @ l)
                        (enumerate 0
                          (map ((!) (readlines content))
                            [nat ((p - 1) * lines_per_page)..<
                             nat (min (p * lines_per_page)
                                   (int (length (readlines content))))])))),
                  w'))
       \<and> concat (map (\<lambda>p. map ((!) (readlines content))
                     [nat ((p - 1) * lines_per_page)..<
                      nat (min (p * lines_per_page) (int (length (readlines content))))])
             (py_range 1
               (\<lceil>real (length (readlines content)) / real_of_int lines_per_page\<rceil> + 1)))
           = readlines content
       \<and> concat (readlines content) = content
       \<and> (length (readlines content) = 25 \<and> lines_per_page = 10 \<longrightarrow>
             read_markdown_pages os file_path (Some 2) lines_per_page w
               = (Inr (''=== Page '' @ str_int 2 @ ''/'' @ str_int 3
                    @ '' from '' @ file_path @ '' ===\<newline>''
                    @ ''Lines '' @ str_int 11 @ ''-'' @ str_int 20
                    @ '' of '' @ str_int 25 @ ''\<newline>\<newline>''
                    @ concat (map (\<lambda>(i, l). fmt4d (11 + int i) @ '' | '' @ l)
                        (enumerate 0 (map ((!) (readlines content)) [10..<20])))),
                  w'))"
proof -
  let ?lines = "readlines content"
  let ?n = "int (length ?lines)"
  let ?tp = "\<lceil>real (length ?lines) / real_of_int lines_per_page\<rceil>"
  have c: "total_pages ?n lines_per_page = ?tp"
    using total_pages_ceiling[OF assms(1), of ?n] by simp
  have nz: "lines_per_page \<noteq> 0" using assms(1) by simp
  have listing: "read_markdown_pages os file_path None lines_per_page w
           = (Inr (''=== File: '' @ file_path @ '' ===\<newline>''
                @ ''Total lines: '' @ str_int ?n @ newline
                @ ''Lines per page: '' @ str_int lines_per_page @ newline
                @ ''Total pages: '' @ str_int ?tp @ ''\<newline>\<newline>''
                @ concat (map (\<lambda>i. ''Page '' @ str_int i @ '': Lines ''
                      @ str_int ((i - 1) * lines_per_page + 1) @ ''-''
                      @ str_int (min (i * lines_per_page) ?n) @ newline)
                    (py_range 1 (?tp + 1)))), w')"
  proof -
    have "read_markdown_pages_text file_path ?lines None lines_per_page
        = Inr (''=== File: '' @ file_path @ '' ===\<newline>''
                @ ''Total lines: '' @ str_int ?n @ newline
                @ ''Lines per page: '' @ str_int lines_per_page @ newline
                @ ''Total pages: '' @ str_int (total_pages ?n lines_per_page)
                @ ''\<newline>\<newline>''
                @ concat (map (page_entry ?n lines_per_page)
                    (py_range 1 (total_pages ?n lines_per_page + 1))))"
      unfolding read_markdown_pages_text_def Let_def using nz
      by (simp only: if_False option.case)
    also have "map (page_entry ?n lines_per_page) = map (\<lambda>i. ''Page '' @ str_int i @ '': Lines ''
                      @ str_int ((i - 1) * lines_per_page + 1) @ ''-''
                      @ str_int (min (i * lines_per_page) ?n) @ newline)"
      by (rule arg_cong[where f = map]) (simp add: fun_eq_iff page_entry_def Let_def)
    finally show ?thesis
      using read_markdown_pages_on_file[OF assms(2,3), of None lines_per_page]
      by (simp only: c sum.case)
  qed
  have page: "read_markdown_pages os file_path (Some p) lines_per_page w
               = (Inr (''=== Page '' @ str_int p @ ''/'' @ str_int ?tp
                    @ '' from '' @ file_path @ '' ===\<newline>''
                    @ ''Lines '' @ str_int ((p - 1) * lines_per_page + 1) @ ''-''
                    @ str_int (min (p * lines_per_page) ?n)
                    @ '' of '' @ str_int ?n @ ''\<newline>\<newline>''
                    @ concat (map (\<lambda>(i, l). fmt4d ((p - 1) * lines_per_page + 1 + int i)
                          @ '' | '' @ l)
                        (enumerate 0
                          (map ((!) ?lines)
                            [nat ((p - 1) * lines_per_page)..<
                             nat (min (p * lines_per_page) ?n)])))), w')"
    if p: "1 \<le> p \<and> p \<le> ?tp" for p
  proof -
    have inr: "\<not> (p < 1 \<or> p > total_pages ?n lines_per_page)" using p c by simp
    have "read_markdown_pages_text file_path ?lines (Some p) lines_per_page
        = Inr (''=== Page '' @ str_int p @ ''/'' @ str_int (total_pages ?n lines_per_page)
            @ '' from '' @ file_path @ '' ===\<newline>''
            @ ''Lines '' @ str_int ((p - 1) * lines_per_page + 1) @ ''-''
            @ str_int (min (p * lines_per_page) ?n) @ '' of ''
            @ str_int ?n @ ''\<newline>\<newline>''
            @ numbered ((p - 1) * lines_per_page + 1) (page_lines ?lines p lines_per_page))"
      unfolding read_markdown_pages_text_def Let_def
      using nz inr by (simp only: if_False option.case)
    moreover have "page_lines ?lines p lines_per_page
        = map ((!) ?lines) [nat ((p - 1) * lines_per_page)..<nat (min (p * lines_per_page) ?n)]"
      using page_lines_nth[OF assms(1), of p ?lines] p by simp
    ultimately show ?thesis
      using read_markdown_pages_on_file[OF assms(2,3), of "Some p" lines_per_page]
      by (simp only: c sum.case numbered_def)
  qed
  have cat: "concat (map (\<lambda>p. map ((!) ?lines)
                     [nat ((p - 1) * lines_per_page)..<nat (min (p * lines_per_page) ?n)])
             (py_range 1 (?tp + 1))) = ?lines"
    using pages_nth_concat[OF assms(1), of ?lines] by (simp only: c)
  have ex: "read_markdown_pages os file_path (Some 2) lines_per_page w
               = (Inr (''=== Page '' @ str_int 2 @ ''/'' @ str_int 3
                    @ '' from '' @ file_path @ '' ===\<newline>''
                    @ ''Lines '' @ str_int 11 @ ''-'' @ str_int 20
                    @ '' of '' @ str_int 25 @ ''\<newline>\<newline>''
                    @ concat (map (\<lambda>(i, l). fmt4d (11 + int i) @ '' | '' @ l)
                        (enumerate 0 (map ((!) ?lines) [10..<20])))), w')"
    if e: "length ?lines = 25 \<and> lines_per_page = 10"
  proof -
    have "total_pages 25 10 = 3" by (simp add: total_pages_def)
    then have tp3: "?tp = 3" using c e by simp
    then have "1 \<le> (2::int) \<and> 2 \<le> ?tp" by simp
    from page[OF this] show ?thesis using e tp3 by simp
  qed
  show ?thesis
    using c listing page cat ex concat_readlines[of content] by blast
qed

theorem read_markdown_pages_pagination_witness:
  "(1::int) \<le> 10
   \<and> os_path_exists sim_os ''/papers/alphabet.md'' paper_world
   \<and> open_read sim_os ''/papers/alphabet.md'' paper_world
       = (Inr (concat alphabet_lines), paper_world)
   \<and> readlines (concat alphabet_lines) = alphabet_lines
   \<and> length alphabet_lines = 25
   \<and> read_markdown_pages sim_os ''/papers/alphabet.md'' (Some 2) 10 paper_world
       = (Inr (''=== Page 2/3 from /papers/alphabet.md ===\<newline>Lines 11-20 of 25\<newline>\<newline>''
            @ ''  11 | k\<newline>  12 | l\<newline>  13 | m\<newline>  14 | n\<newline>  15 | o\<newline>''
            @ ''  16 | p\<newline>  17 | q\<newline>  18 | r\<newline>  19 | s\<newline>  20 | t\<newline>''),
          paper_world)
   \<and> read_markdown_pages sim_os ''/papers/alphabet.md'' None 10 paper_world
       = (Inr (''=== File: /papers/alphabet.md ===\<newline>Total lines: 25\<newline>''
            @ ''Lines per page: 10\<newline>Total pages: 3\<newline>\<newline>''
            @ ''Page 1: Lines 1-10\<newline>Page 2: Lines 11-20\<newline>Page 3: Lines 21-25\<newline>''),
          paper_world)"
proof -
  let ?c = "concat alphabet_lines"
  have h1: "(1::int) \<le> 10" by simp
  have h2: "os_path_exists sim_os ''/papers/alphabet.md'' paper_world" by code_simp
  have h3: "open_read sim_os ''/papers/alphabet.md'' paper_world = (Inr ?c, paper_world)"
    by code_simp
  have r: "readlines ?c = alphabet_lines" by code_simp
  have len: "length alphabet_lines = 25" by (simp add: alphabet_lines_def)
  note t = read_markdown_pages_pagination[OF h1 h2 h3]
  have tp: "\<lceil>real (length (readlines ?c)) / real_of_int 10\<rceil> = 3"
  proof -
    have "total_pages (int (length (readlines ?c))) 10 = 3" unfolding r len by code_simp
    then show ?thesis using t by simp
  qed
  have p2: "read_markdown_pages sim_os ''/papers/alphabet.md'' (Some 2) 10 paper_world
      = (Inr (''=== Page '' @ str_int 2 @ ''/'' @ str_int 3
           @ '' from '' @ ''/papers/alphabet.md'' @ '' ===\<newline>''
           @ ''Lines '' @ str_int 11 @ ''-'' @ str_int 20
           @ '' of '' @ str_int 25 @ ''\<newline>\<newline>''
           @ concat (map (\<lambda>(i, l). fmt4d (11 + int i) @ '' | '' @ l)
               (enumerate 0 (map ((!) (readlines ?c)) [10..<20])))), paper_world)"
    using t r len by simp
  have e2: "''=== Page '' @ str_int 2 @ ''/'' @ str_int 3
           @ '' from '' @ ''/papers/alphabet.md'' @ '' ===\<newline>''
           @ ''Lines '' @ str_int 11 @ ''-'' @ str_int 20
           @ '' of '' @ str_int 25 @ ''\<newline>\<newline>''
           @ concat (map (\<lambda>(i, l). fmt4d (11 + int i) @ '' | '' @ l)
               (enumerate 0 (map ((!) (readlines ?c)) [10..<20])))
      = ''=== Page 2/3 from /papers/alphabet.md ===\<newline>Lines 11-20 of 25\<newline>\<newline>''
            @ ''  11 | k\<newline>  12 | l\<newline>  13 | m\<newline>  14 | n\<newline>  15 | o\<newline>''
            @ ''  16 | p\<newline>  17 | q\<newline>  18 | r\<newline>  19 | s\<newline>  20 | t\<newline>''"
    by code_simp
  have p0: "read_markdown_pages sim_os ''/papers/alphabet.md'' None 10 paper_world
      = (Inr (''=== File: '' @ ''/papers/alphabet.md'' @ '' ===\<newline>''
                @ ''Total lines: '' @ str_int (int (length (readlines ?c))) @ newline
                @ ''Lines per page: '' @ str_int 10 @ newline
                @ ''Total pages: '' @ str_int 3 @ ''\<newline>\<newline>''
                @ concat (map (\<lambda>i. ''Page '' @ str_int i @ '': Lines ''
                      @ str_int ((i - 1) * 10 + 1) @ ''-''
                      @ str_int (min (i * 10) (int (length (readlines ?c))))
                      @ newline)
                    (py_range 1 (3 + 1)))), paper_world)"
    using t unfolding tp by blast
  have e0: "''=== File: '' @ ''/papers/alphabet.md'' @ '' ===\<newline>''
                @ ''Total lines: '' @ str_int (int (length (readlines ?c))) @ newline
                @ ''Lines per page: '' @ str_int 10 @ newline
                @ ''Total pages: '' @ str_int 3 @ ''\<newline>\<newline>''
                @ concat (map (\<lambda>i. ''Page '' @ str_int i @ '': Lines ''
                      @ str_int ((i - 1) * 10 + 1) @ ''-''
                      @ str_int (min (i * 10) (int (length (readlines ?c))))
                      @ newline)
                    (py_range 1 (3 + 1)))
      = ''=== File: /papers/alphabet.md ===\<newline>Total lines: 25\<newline>''
            @ ''Lines per page: 10\<newline>Total pages: 3\<newline>\<newline>''
            @ ''Page 1: Lines 1-10\<newline>Page 2: Lines 11-20\<newline>Page 3: Lines 21-25\<newline>''"
    by code_simp
  show ?thesis
    using h1 h2 h3 r len p2 p0 unfolding e2 e0 by blast
qed

subsection \<open>Searching\<close>

lemma enumerate_filter_fst:
  "map fst (filter (\<lambda>(i, l). P l) (enumerate n xs))
     = filter (\<lambda>i. P (xs ! (i - n))) [n..<n + length xs]"
proof (induction xs arbitrary: n)
  case Nil
  then show ?case by simp
next
  case (Cons x xs)
  have "n < n + length (x # xs)" by simp
  then have "[n..<n + length (x # xs)] = n # [Suc n..<n + length (x # xs)]"
    by (rule upt_conv_Cons)
  then have u: "[n..<n + length (x # xs)] = n # [Suc n..<Suc n + length xs]"
    by simp
  have f: "filter (\<lambda>i. P ((x # xs) ! (i - n))) [Suc n..<Suc n + length xs]
      = filter (\<lambda>i. P (xs ! (i - Suc n))) [Suc n..<Suc n + length xs]"
  proof (rule filter_cong[OF refl])
    fix i assume "i \<in> set [Suc n..<Suc n + length xs]"
    then have "i - n = Suc (i - Suc n)" by auto
    then show "P ((x # xs) ! (i - n)) = P (xs ! (i - Suc n))" by simp
  qed
  have "map fst (filter (\<lambda>(i, l). P l) (enumerate n (x # xs)))
      = (if P x then [n] else []) @ map fst (filter (\<lambda>(i, l). P l) (enumerate (Suc n) xs))"
    by simp
  also have "\<dots> = (if P x then [n] else [])
      @ filter (\<lambda>i. P (xs ! (i - Suc n))) [Suc n..<Suc n + length xs]"
    by (simp only: Cons.IH)
  also have "\<dots> = filter (\<lambda>i. P ((x # xs) ! (i - n))) (n # [Suc n..<Suc n + length xs])"
    by (simp only: filter.simps f) simp
  finally show ?case by (simp only: u)
qed

lemma search_matches_numbers:
  "map fst (search_matches lines search_term context_lines)
     = map (\<lambda>i. int i + 1)
         (filter (\<lambda>i. sublist (lower search_term) (lower (lines ! i))) [0..<length lines])"
proof -
  have "map fst (search_matches lines search_term context_lines)
      = map (\<lambda>i. int i + 1)
          (map fst (filter (\<lambda>(i, l). line_matches search_term l) (enumerate 0 lines)))"
    by (simp add: search_matches_def comp_def case_prod_unfold)
  also have "\<dots> = map (\<lambda>i. int i + 1)
      (filter (\<lambda>i. line_matches search_term (lines ! (i - 0))) [0..<0 + length lines])"
    by (simp only: enumerate_filter_fst)
  finally show ?thesis by (simp add: line_matches_def)
qed

lemma search_matches_empty:
  "search_matches lines search_term context_lines = []
     \<longleftrightarrow> (\<forall>l \<in> set lines. \<not> sublist (lower search_term) (lower l))"
proof -
  have "search_matches lines search_term context_lines = []
      \<longleftrightarrow> map fst (search_matches lines search_term context_lines) = []" by simp
  also have "\<dots> \<longleftrightarrow> (\<forall>i < length lines. \<not> sublist (lower search_term) (lower (lines ! i)))"
    by (simp only: search_matches_numbers) (auto simp: filter_empty_conv)
  also have "\<dots> \<longleftrightarrow> (\<forall>l \<in> set lines. \<not> sublist (lower search_term) (lower l))"
    by (simp only: all_set_conv_all_nth)
  finally show ?thesis .
qed

lemma enumerate_map_snd:
  "enumerate n (map f xs) = map (\<lambda>(k, x). (k, f x)) (enumerate n xs)"
  by (induction xs arbitrary: n) auto

lemma search_matches_eq:
  "search_matches lines search_term context_lines
     = map (\<lambda>i. (int i + 1, context_text lines i context_lines))
         (filter (\<lambda>i. sublist (lower search_term) (lower (lines ! i))) [0..<length lines])"
proof -
  have "search_matches lines search_term context_lines
      = map (\<lambda>i. (int i + 1, context_text lines i context_lines))
          (map fst (filter (\<lambda>(i, l). line_matches search_term l) (enumerate 0 lines)))"
    by (simp add: search_matches_def comp_def case_prod_unfold)
  also have "\<dots> = map (\<lambda>i. (int i + 1, context_text lines i context_lines))
      (filter (\<lambda>i. line_matches search_term (lines ! (i - 0))) [0..<0 + length lines])"
    by (simp only: enumerate_filter_fst)
  finally show ?thesis by (simp add: line_matches_def)
qed

lemma search_markdown_content_on_file:
  assumes "os_path_exists os file_path w" and "open_read os file_path w = (Inr content, w')"
  shows "search_markdown_content os file_path search_term context_lines w
    = (Inr (search_markdown_content_text file_path (readlines content) search_term
          context_lines), w')"
  using assms
  by (simp add: search_markdown_content_def search_markdown_content_body_def io_try_def
      io_bind_def io_get_def io_return_def)

text \<open>
  Claim C10. For a file that exists and that \<^verbatim>\<open>open\<close> reads,
  \<^verbatim>\<open>search_markdown_content\<close> compares the lower-cased search term with every lower-cased
  line. When no line contains the term, the tool returns the text
  \<^verbatim>\<open>No matches found for '<term>' in <path>\<close>. Otherwise it returns the header, the
  number of matches, and one entry \<^verbatim>\<open>Match k (Line n)\<close> with its context for exactly the
  lines \<open>n\<close> that contain the term, in the order of the file. The result is never the
  empty text.
\<close>

theorem search_markdown_content_case_insensitive:
  assumes "os_path_exists os file_path w"
    and "open_read os file_path w = (Inr content, w')"
  shows "((\<forall>l \<in> set (readlines content). \<not> sublist (lower search_term) (lower l)) \<longrightarrow>
          search_markdown_content os file_path search_term context_lines w
            = (Inr (''No matches found for '' @ [CHR 0x27] @ search_term @ [CHR 0x27]
                 @ '' in '' @ file_path), w'))
   \<and> ((\<exists>l \<in> set (readlines content). sublist (lower search_term) (lower l)) \<longrightarrow>
          search_markdown_content os file_path search_term context_lines w
            = (Inr (''=== Search Results for '' @ [CHR 0x27] @ search_term @ [CHR 0x27]
                 @ '' in '' @ file_path @ '' ===\<newline>''
                 @ ''Found ''
                 @ str_int (int (length
                     (filter (\<lambda>i. sublist (lower search_term) (lower (readlines content ! i)))
                        [0..<length (readlines content)])))
                 @ '' match''
                 @ (if length
                        (filter (\<lambda>i. sublist (lower search_term) (lower (readlines content ! i)))
                           [0..<length (readlines content)]) \<noteq> 1
                    then ''es'' else [])
                 @ ''\<newline>\<newline>''
                 @ concat (map (\<lambda>(k, i).
                     ''Match '' @ str_int (int k) @ '' (Line '' @ str_int (int i + 1)
                     @ ''):\<newline>''
                     @ context_text (readlines content) i context_lines @ newline)
                   (enumerate 1
                     (filter (\<lambda>i. sublist (lower search_term) (lower (readlines content ! i)))
                        [0..<length (readlines content)])))), w'))
   \<and> search_markdown_content os file_path search_term context_lines w \<noteq> (Inr [], w')
   \<and> map fst (search_matches (readlines content) search_term context_lines)
       = map (\<lambda>i. int i + 1)
           (filter (\<lambda>i. sublist (lower search_term) (lower (readlines content ! i)))
              [0..<length (readlines content)])"
proof (intro conjI impI)
  let ?lines = "readlines content"
  let ?hits = "filter (\<lambda>i. sublist (lower search_term) (lower (?lines ! i))) [0..<length ?lines]"
  note tool = search_markdown_content_on_file[OF assms, of search_term context_lines]
  note m = search_matches_eq[of ?lines search_term context_lines]
  show "search_markdown_content os file_path search_term context_lines w \<noteq> (Inr [], w')"
    unfolding tool by (simp add: search_markdown_content_text_def Let_def)
  show "map fst (search_matches ?lines search_term context_lines) = map (\<lambda>i. int i + 1) ?hits"
    by (rule search_matches_numbers)
  show "search_markdown_content os file_path search_term context_lines w
      = (Inr (''No matches found for '' @ [CHR 0x27] @ search_term @ [CHR 0x27]
           @ '' in '' @ file_path), w')"
    if "\<forall>l \<in> set ?lines. \<not> sublist (lower search_term) (lower l)"
  proof -
    have "search_matches ?lines search_term context_lines = []"
      using that by (simp only: search_matches_empty)
    then show ?thesis unfolding tool by (simp add: search_markdown_content_text_def)
  qed
  show "search_markdown_content os file_path search_term context_lines w
      = (Inr (''=== Search Results for '' @ [CHR 0x27] @ search_term @ [CHR 0x27]
           @ '' in '' @ file_path @ '' ===\<newline>''
           @ ''Found '' @ str_int (int (length ?hits)) @ '' match''
           @ (if length ?hits \<noteq> 1 then ''es'' else [])
           @ ''\<newline>\<newline>''
           @ concat (map (\<lambda>(k, i).
               ''Match '' @ str_int (int k) @ '' (Line '' @ str_int (int i + 1)
               @ ''):\<newline>''
               @ context_text ?lines i context_lines @ newline)
             (enumerate 1 ?hits))), w')"
    if "\<exists>l \<in> set ?lines. sublist (lower search_term) (lower l)"
  proof -
    have ne: "search_matches ?lines search_term context_lines \<noteq> []"
      using that by (simp only: search_matches_empty) blast
    have len: "length (search_matches ?lines search_term context_lines) = length ?hits"
      by (simp only: m length_map)
    have rows: "map (\<lambda>(i, (line_num, context)).
               ''Match '' @ str_int (int i) @ '' (Line '' @ str_int line_num @ ''):\<newline>''
               @ context @ newline)
             (enumerate 1 (search_matches ?lines search_term context_lines))
        = map (\<lambda>(k, i).
               ''Match '' @ str_int (int k) @ '' (Line '' @ str_int (int i + 1)
               @ ''):\<newline>''
               @ context_text ?lines i context_lines @ newline)
             (enumerate 1 ?hits)"
      by (simp only: m enumerate_map_snd) (simp add: case_prod_unfold comp_def)
    have "search_markdown_content_text file_path ?lines search_term context_lines
        = ''=== Search Results for '' @ [CHR 0x27] @ search_term @ [CHR 0x27] @ '' in ''
             @ file_path @ '' ===\<newline>''
           @ ''Found '' @ str_int (int (length (search_matches ?lines search_term context_lines)))
             @ '' match''
             @ (if length (search_matches ?lines search_term context_lines) \<noteq> 1
                then ''es'' else [])
             @ ''\<newline>\<newline>''
           @ concat (map (\<lambda>(i, (line_num, context)).
               ''Match '' @ str_int (int i) @ '' (Line '' @ str_int line_num @ ''):\<newline>''
               @ context @ newline)
             (enumerate 1 (search_matches ?lines search_term context_lines)))"
      unfolding search_markdown_content_text_def Let_def using ne by (simp only: if_False)
    then show ?thesis unfolding tool by (simp only: rows len)
  qed
qed

theorem search_markdown_content_case_insensitive_witness:
  "os_path_exists sim_os ''/papers/greek.md'' paper_world
   \<and> open_read sim_os ''/papers/greek.md'' paper_world
       = (Inr ''Alpha\<newline>beta\<newline>gamma DATA\<newline>'', paper_world)
   \<and> readlines ''Alpha\<newline>beta\<newline>gamma DATA\<newline>''
       = [''Alpha\<newline>'', ''beta\<newline>'', ''gamma DATA\<newline>'']
   \<and> sublist (lower ''Data'') (lower ''gamma DATA\<newline>'')
   \<and> filter (\<lambda>l. sublist (lower ''zeta'') (lower l))
         (readlines ''Alpha\<newline>beta\<newline>gamma DATA\<newline>'') = []
   \<and> search_markdown_content sim_os ''/papers/greek.md'' ''zeta'' 1 paper_world
       = (Inr ''No matches found for 'zeta' in /papers/greek.md'', paper_world)
   \<and> search_markdown_content sim_os ''/papers/greek.md'' ''Data'' 1 paper_world
       = (Inr (''=== Search Results for 'Data' in /papers/greek.md ===\<newline>''
            @ ''Found 1 match\<newline>\<newline>''
            @ ''Match 1 (Line 3):\<newline>       2 | beta\<newline>>>>    3 | gamma DATA\<newline>\<newline>''),
          paper_world)"
proof -
  let ?c = "''Alpha\<newline>beta\<newline>gamma DATA\<newline>''"
  have h1: "os_path_exists sim_os ''/papers/greek.md'' paper_world" by code_simp
  have h2: "open_read sim_os ''/papers/greek.md'' paper_world = (Inr ?c, paper_world)"
    by code_simp
  have r: "readlines ?c = [''Alpha\<newline>'', ''beta\<newline>'', ''gamma DATA\<newline>'']"
    by code_simp
  have yes1: "sublist (lower ''Data'') (lower ''gamma DATA\<newline>'')" by code_simp
  have yes: "\<exists>l \<in> set (readlines ?c). sublist (lower ''Data'') (lower l)"
    unfolding r using yes1 by simp
  have nf: "filter (\<lambda>l. sublist (lower ''zeta'') (lower l)) (readlines ?c) = []"
    by code_simp
  then have no: "\<forall>l \<in> set (readlines ?c). \<not> sublist (lower ''zeta'') (lower l)"
    by (simp only: filter_empty_conv)
  note t1 = search_markdown_content_case_insensitive[OF h1 h2, of "''Data''" 1]
  note t2 = search_markdown_content_case_insensitive[OF h1 h2, of "''zeta''" 1]
  have r2: "search_markdown_content sim_os ''/papers/greek.md'' ''zeta'' 1 paper_world
      = (Inr (''No matches found for '' @ [CHR 0x27] @ ''zeta'' @ [CHR 0x27]
           @ '' in '' @ ''/papers/greek.md''), paper_world)"
    using t2 no by blast
  have r1: "search_markdown_content sim_os ''/papers/greek.md'' ''Data'' 1 paper_world
      = (Inr (''=== Search Results for '' @ [CHR 0x27] @ ''Data'' @ [CHR 0x27]
           @ '' in '' @ ''/papers/greek.md'' @ '' ===\<newline>''
           @ ''Found ''
           @ str_int (int (length
               (filter (\<lambda>i. sublist (lower ''Data'') (lower (readlines ?c ! i)))
                  [0..<length (readlines ?c)])))
           @ '' match''
           @ (if length
                  (filter (\<lambda>i. sublist (lower ''Data'') (lower (readlines ?c ! i)))
                     [0..<length (readlines ?c)]) \<noteq> 1
              then ''es'' else [])
           @ ''\<newline>\<newline>''
           @ concat (map (\<lambda>(k, i).
               ''Match '' @ str_int (int k) @ '' (Line '' @ str_int (int i + 1)
               @ ''):\<newline>''
               @ context_text (readlines ?c) i 1 @ newline)
             (enumerate 1
               (filter (\<lambda>i. sublist (lower ''Data'') (lower (readlines ?c ! i)))
                  [0..<length (readlines ?c)])))), paper_world)"
    using t1 yes by blast
  have ev: "''=== Search Results for '' @ [CHR 0x27] @ ''Data'' @ [CHR 0x27]
           @ '' in '' @ ''/papers/greek.md'' @ '' ===\<newline>''
           @ ''Found ''
           @ str_int (int (length
               (filter (\<lambda>i. sublist (lower ''Data'') (lower (readlines ?c ! i)))
                  [0..<length (readlines ?c)])))
           @ '' match''
           @ (if length
                  (filter (\<lambda>i. sublist (lower ''Data'') (lower (readlines ?c ! i)))
                     [0..<length (readlines ?c)]) \<noteq> 1
              then ''es'' else [])
           @ ''\<newline>\<newline>''
           @ concat (map (\<lambda>(k, i).
               ''Match '' @ str_int (int k) @ '' (Line '' @ str_int (int i + 1)
               @ ''):\<newline>''
               @ context_text (readlines ?c) i 1 @ newline)
             (enumerate 1
               (filter (\<lambda>i. sublist (lower ''Data'') (lower (readlines ?c ! i)))
                  [0..<length (readlines ?c)])))
      = ''=== Search Results for 'Data' in /papers/greek.md ===\<newline>''
            @ ''Found 1 match\<newline>\<newline>''
            @ ''Match 1 (Line 3):\<newline>       2 | beta\<newline>>>>    3 | gamma DATA\<newline>\<newline>''"
    by code_simp
  have ev2: "''No matches found for '' @ [CHR 0x27] @ ''zeta'' @ [CHR 0x27]
           @ '' in '' @ ''/papers/greek.md'' = ''No matches found for 'zeta' in /papers/greek.md''"
    by simp
  show ?thesis
    using h1 h2 r yes1 nf r1 r2 unfolding ev ev2 by blast
qed

subsection \<open>Sections\<close>

text \<open>
  Claim C1 (what the code does at an input that breaks it). In the file
  \<^verbatim>\<open>"# A\n## B\n# A\n"\<close> the header of the third section is line 3 and equals line 1;
  \<^verbatim>\<open>lines.index(line)\<close> finds line 1, so the sections come out in document order, but the
  reported line numbers are 1, 2, 1: the last is not the line of its header, and the
  numbers do not increase.
\<close>

theorem read_markdown_sections_repeated_header:
  "parse_sections (splitlines ''# A\<newline>## B\<newline># A\<newline>'')
     = [(\<lparr>name = ''A'', level = 1, line = 1\<rparr>, ''# A''),
        (\<lparr>name = ''B'', level = 2, line = 2\<rparr>, ''## B''),
        (\<lparr>name = ''A'', level = 1, line = 1\<rparr>, ''# A'')]
   \<and> splitlines ''# A\<newline>## B\<newline># A\<newline>'' ! 2 = ''# A''
   \<and> read_markdown_sections_text ''f.md'' ''# A\<newline>## B\<newline># A\<newline>'' None
       = ''=== Sections in f.md ===\<newline>\<newline>''
         @ ''- A (Line 1)\<newline>  - B (Line 2)\<newline>- A (Line 1)\<newline>''"
  by code_simp

text \<open>
  Claim C2 (what the code does at an input that breaks it). In the file
  \<^verbatim>\<open>"intro\n# A\nbody\n"\<close> the line \<^verbatim>\<open>intro\<close> stands before the first header. The loop
  holds it in \<^verbatim>\<open>current_content\<close> and overwrites it at the first header: the only section
  is \<^verbatim>\<open>A\<close>, the listing has no preamble entry, and no lookup returns the text.
\<close>

theorem read_markdown_sections_preamble_dropped:
  "parse_sections (splitlines ''intro\<newline># A\<newline>body\<newline>'')
     = [(\<lparr>name = ''A'', level = 1, line = 2\<rparr>, ''# A\<newline>body'')]
   \<and> read_markdown_sections_text ''f.md'' ''intro\<newline># A\<newline>body\<newline>'' None
       = ''=== Sections in f.md ===\<newline>\<newline>- A (Line 2)\<newline>''
   \<and> read_markdown_sections_text ''f.md'' ''intro\<newline># A\<newline>body\<newline>'' (Some ''intro'')
       = ''Error: Section 'intro' not found in file''
   \<and> read_markdown_sections_text ''f.md'' ''intro\<newline>'' None
       = ''=== Sections in f.md ===\<newline>\<newline>''"
  by code_simp




subsection \<open>Line and page ranges\<close>

lemma py_slice_from_to:
  assumes "0 \<le> a" and "0 \<le> b" and "b \<le> int (length xs)"
  shows "py_slice xs a b = map ((!) xs) [nat a..<nat b]"
proof -
  have "nat b \<le> length xs" using assms by linarith
  then show ?thesis using py_slice_nonneg[OF assms(1,2), of xs] by (simp add: slice_nth)
qed

lemma collect_Inr: "collect (map (\<lambda>x. Inr (f x)) xs) = Inr (concat (map f xs))"
  by (induction xs) auto

lemma read_markdown_lines_on_file:
  assumes "os_path_exists os file_path w" and "open_read os file_path w = (Inr content, w')"
  shows "read_markdown_lines os file_path start_line end_line w
    = (case read_markdown_lines_text file_path (readlines content) start_line end_line of
         Inl e \<Rightarrow> (Inr (''Error reading markdown lines: '' @ str_exn e), w')
       | Inr s \<Rightarrow> (Inr s, w'))"
  using assms
  by (simp add: read_markdown_lines_def read_markdown_lines_body_def io_try_def io_bind_def
      io_get_def io_return_def io_lift_def io_raise_def split: sum.splits)

lemma read_markdown_lines_text_in_range:
  fixes lines :: "string list"
  assumes s1: "1 \<le> s" and sn: "s \<le> int (length lines)"
    and hi: "hi = (case end_line of None \<Rightarrow> int (length lines)
                   | Some e \<Rightarrow> min (int (length lines)) e)"
    and se: "s \<le> hi"
  shows "read_markdown_lines_text file_path lines s end_line
    = Inr (''=== Lines '' @ str_int s @ ''-'' @ str_int hi
        @ '' from '' @ file_path @ '' ===\<newline>''
        @ ''Total file lines: '' @ str_int (int (length lines)) @ ''\<newline>\<newline>''
        @ concat (map (\<lambda>(i, l). fmt4d (s + int i) @ '' | '' @ l)
            (enumerate 0 (map ((!) lines) [nat (s - 1)..<nat hi]))))"
proof -
  let ?n = "int (length lines)"
  let ?sel = "map ((!) lines) [nat (s - 1)..<nat hi]"
  have hin: "hi \<le> ?n" using hi by (cases end_line) auto
  have idx: "max 0 (s - 1) = s - 1" using s1 by simp
  have sel: "selected_lines lines s end_line = ?sel"
  proof -
    have "py_slice lines (s - 1) hi = ?sel"
      by (rule py_slice_from_to) (use s1 se hin in auto)
    then show ?thesis using hi by (simp add: selected_lines_def Let_def idx)
  qed
  define k where "k = length ?sel"
  have len: "int k = hi - s + 1" unfolding k_def using s1 se by auto
  have num: "line_numbers lines s end_line = map (\<lambda>j. s + int j) [0..<k]"
  proof -
    have "min (s + int k) (?n + 1) = hi + 1" using len hin by linarith
    moreover have "nat (hi + 1 - s) = k" using len by linarith
    ultimately show ?thesis
      unfolding line_numbers_def sel py_range_def k_def[symmetric] by (simp only:)
  qed
  have pos: "0 < k" using len se by linarith
  then have ne: "line_numbers lines s end_line \<noteq> []" unfolding num by simp
  have hd: "hd (line_numbers lines s end_line) = s"
    unfolding num using pos by (simp add: hd_map upt_conv_Cons)
  have last: "last (line_numbers lines s end_line) = hi"
  proof -
    have "last (map (\<lambda>j. s + int j) [0..<k]) = s + int (k - 1)"
      using pos by (simp add: last_map)
    then show ?thesis unfolding num using len pos by simp
  qed
  have rows: "map (\<lambda>(i, l).
        if i < length (line_numbers lines s end_line)
        then Inr (fmt4d (line_numbers lines s end_line ! i) @ '' | '' @ l)
        else Inl (IndexError ''range object index out of range''))
      (enumerate 0 ?sel)
    = map (\<lambda>x. Inr ((\<lambda>(i, l). fmt4d (s + int i) @ '' | '' @ l) x)) (enumerate 0 ?sel)"
  proof (rule map_cong[OF refl])
    fix x assume "x \<in> set (enumerate 0 ?sel)"
    then have "fst x < k" unfolding k_def by (auto simp: in_set_enumerate_eq)
    then show "(case x of (i, l) \<Rightarrow>
          if i < length (line_numbers lines s end_line)
          then Inr (fmt4d (line_numbers lines s end_line ! i) @ '' | '' @ l)
          else Inl (IndexError ''range object index out of range''))
        = Inr ((\<lambda>(i, l). fmt4d (s + int i) @ '' | '' @ l) x)"
      unfolding num by (cases x) simp
  qed
  have col: "collect (map (\<lambda>(i, l).
        if i < length (line_numbers lines s end_line)
        then Inr (fmt4d (line_numbers lines s end_line ! i) @ '' | '' @ l)
        else Inl (IndexError ''range object index out of range''))
      (enumerate 0 ?sel))
    = Inr (concat (map (\<lambda>(i, l). fmt4d (s + int i) @ '' | '' @ l) (enumerate 0 ?sel)))"
    unfolding rows by (rule collect_Inr)
  have nobeyond: "\<not> ?n \<le> max 0 (s - 1)" using sn idx by simp
  show ?thesis
    unfolding read_markdown_lines_text_def Let_def sel
    using nobeyond ne by (simp only: if_False col sum.case hd last)
qed

text \<open>
  Claim C6, amended. For a file that exists and that \<^verbatim>\<open>open\<close> reads, lines and pages
  are counted from 1. \<^verbatim>\<open>read_markdown_lines\<close> with a start line from 1 to the last line,
  and no end line or an end line not before the start line, returns the lines from the
  start line to \<open>min total_lines end_line\<close>, numbered from the start line: an end beyond
  the file is cut to the last line. A start line beyond the last line is refused with an
  error text. \<^verbatim>\<open>read_markdown_pages\<close> refuses a page outside 1 to \<open>total_pages\<close> with an
  error text, and for a page in that range returns the lines
  \<open>(p - 1) * lines_per_page + 1\<close> to \<open>min (p * lines_per_page) total_lines\<close>. In all these
  cases every line returned is a line of the file.
\<close>

theorem read_markdown_range_bounds:
  assumes "os_path_exists os file_path w"
    and "open_read os file_path w = (Inr content, w')"
  shows "(1 \<le> start_line \<and> start_line \<le> int (length (readlines content)) \<longrightarrow>
          read_markdown_lines os file_path start_line None w
            = (Inr (''=== Lines '' @ str_int start_line @ ''-''
                 @ str_int (int (length (readlines content)))
                 @ '' from '' @ file_path @ '' ===\<newline>''
                 @ ''Total file lines: '' @ str_int (int (length (readlines content)))
                 @ ''\<newline>\<newline>''
                 @ concat (map (\<lambda>(i, l). fmt4d (start_line + int i) @ '' | '' @ l)
                     (enumerate 0
                       (map ((!) (readlines content))
                         [nat (start_line - 1)..<length (readlines content)])))), w'))
       \<and> (1 \<le> start_line \<and> start_line \<le> int (length (readlines content))
            \<and> start_line \<le> e \<longrightarrow>
          read_markdown_lines os file_path start_line (Some e) w
            = (Inr (''=== Lines '' @ str_int start_line @ ''-''
                 @ str_int (min (int (length (readlines content))) e)
                 @ '' from '' @ file_path @ '' ===\<newline>''
                 @ ''Total file lines: '' @ str_int (int (length (readlines content)))
                 @ ''\<newline>\<newline>''
                 @ concat (map (\<lambda>(i, l). fmt4d (start_line + int i) @ '' | '' @ l)
                     (enumerate 0
                       (map ((!) (readlines content))
                         [nat (start_line - 1)..<
                          nat (min (int (length (readlines content))) e)])))), w'))
       \<and> (int (length (readlines content)) < start_line \<longrightarrow>
          read_markdown_lines os file_path start_line end_line w
            = (Inr (''Error: Start line '' @ str_int start_line @ '' is beyond file length (''
                 @ str_int (int (length (readlines content))) @ '' lines)''), w'))
       \<and> (lines_per_page \<noteq> 0
            \<and> (page_num < 1
                  \<or> total_pages (int (length (readlines content))) lines_per_page < page_num)
            \<longrightarrow>
          read_markdown_pages os file_path (Some page_num) lines_per_page w
            = (Inr (''Error: Page '' @ str_int page_num @ '' is out of range. File has ''
                 @ str_int (total_pages (int (length (readlines content))) lines_per_page)
                 @ '' pages.''), w'))
       \<and> (1 \<le> lines_per_page \<and> 1 \<le> page_num
            \<and> page_num \<le> total_pages (int (length (readlines content))) lines_per_page
            \<longrightarrow>
          read_markdown_pages os file_path (Some page_num) lines_per_page w
            = (Inr (''=== Page '' @ str_int page_num @ ''/''
                 @ str_int (total_pages (int (length (readlines content))) lines_per_page)
                 @ '' from '' @ file_path @ '' ===\<newline>''
                 @ ''Lines '' @ str_int ((page_num - 1) * lines_per_page + 1) @ ''-''
                 @ str_int (min (page_num * lines_per_page) (int (length (readlines content))))
                 @ '' of '' @ str_int (int (length (readlines content)))
                 @ ''\<newline>\<newline>''
                 @ concat (map (\<lambda>(i, l).
                       fmt4d ((page_num - 1) * lines_per_page + 1 + int i) @ '' | '' @ l)
                     (enumerate 0
                       (map ((!) (readlines content))
                         [nat ((page_num - 1) * lines_per_page)..<
                          nat (min (page_num * lines_per_page)
                                (int (length (readlines content))))])))), w'))"
proof (intro conjI impI)
  let ?lines = "readlines content"
  let ?n = "int (length ?lines)"
  note lt = read_markdown_lines_on_file[OF assms]
  note pt = read_markdown_pages_on_file[OF assms]
  show "read_markdown_lines os file_path start_line None w
      = (Inr (''=== Lines '' @ str_int start_line @ ''-'' @ str_int ?n
           @ '' from '' @ file_path @ '' ===\<newline>''
           @ ''Total file lines: '' @ str_int ?n @ ''\<newline>\<newline>''
           @ concat (map (\<lambda>(i, l). fmt4d (start_line + int i) @ '' | '' @ l)
               (enumerate 0 (map ((!) ?lines) [nat (start_line - 1)..<length ?lines])))), w')"
    if a: "1 \<le> start_line \<and> start_line \<le> ?n"
  proof -
    have "read_markdown_lines_text file_path ?lines start_line None
        = Inr (''=== Lines '' @ str_int start_line @ ''-'' @ str_int ?n
            @ '' from '' @ file_path @ '' ===\<newline>''
            @ ''Total file lines: '' @ str_int ?n @ ''\<newline>\<newline>''
            @ concat (map (\<lambda>(i, l). fmt4d (start_line + int i) @ '' | '' @ l)
                (enumerate 0 (map ((!) ?lines) [nat (start_line - 1)..<nat ?n]))))"
      by (rule read_markdown_lines_text_in_range) (use a in simp_all)
    then show ?thesis unfolding lt by simp
  qed
  show "read_markdown_lines os file_path start_line (Some e) w
      = (Inr (''=== Lines '' @ str_int start_line @ ''-'' @ str_int (min ?n e)
           @ '' from '' @ file_path @ '' ===\<newline>''
           @ ''Total file lines: '' @ str_int ?n @ ''\<newline>\<newline>''
           @ concat (map (\<lambda>(i, l). fmt4d (start_line + int i) @ '' | '' @ l)
               (enumerate 0 (map ((!) ?lines) [nat (start_line - 1)..<nat (min ?n e)])))), w')"
    if a: "1 \<le> start_line \<and> start_line \<le> ?n \<and> start_line \<le> e"
  proof -
    have "read_markdown_lines_text file_path ?lines start_line (Some e)
        = Inr (''=== Lines '' @ str_int start_line @ ''-'' @ str_int (min ?n e)
            @ '' from '' @ file_path @ '' ===\<newline>''
            @ ''Total file lines: '' @ str_int ?n @ ''\<newline>\<newline>''
            @ concat (map (\<lambda>(i, l). fmt4d (start_line + int i) @ '' | '' @ l)
                (enumerate 0 (map ((!) ?lines) [nat (start_line - 1)..<nat (min ?n e)]))))"
      by (rule read_markdown_lines_text_in_range) (use a in simp_all)
    then show ?thesis unfolding lt by simp
  qed
  show "read_markdown_lines os file_path start_line end_line w
      = (Inr (''Error: Start line '' @ str_int start_line @ '' is beyond file length (''
           @ str_int ?n @ '' lines)''), w')"
    if a: "?n < start_line"
  proof -
    have "?n \<le> max 0 (start_line - 1)" using a by simp
    then have "read_markdown_lines_text file_path ?lines start_line end_line
        = Inr (''Error: Start line '' @ str_int start_line @ '' is beyond file length (''
            @ str_int ?n @ '' lines)'')"
      unfolding read_markdown_lines_text_def Let_def by (simp only: if_True)
    then show ?thesis unfolding lt by simp
  qed
  show "read_markdown_pages os file_path (Some page_num) lines_per_page w
      = (Inr (''Error: Page '' @ str_int page_num @ '' is out of range. File has ''
           @ str_int (total_pages ?n lines_per_page) @ '' pages.''), w')"
    if a: "lines_per_page \<noteq> 0 \<and> (page_num < 1 \<or> total_pages ?n lines_per_page < page_num)"
  proof -
    have "read_markdown_pages_text file_path ?lines (Some page_num) lines_per_page
        = Inr (''Error: Page '' @ str_int page_num @ '' is out of range. File has ''
            @ str_int (total_pages ?n lines_per_page) @ '' pages.'')"
      unfolding read_markdown_pages_text_def Let_def using a
      by (simp only: if_True if_False option.case)
    then show ?thesis unfolding pt by simp
  qed
  show "read_markdown_pages os file_path (Some page_num) lines_per_page w
      = (Inr (''=== Page '' @ str_int page_num @ ''/''
           @ str_int (total_pages ?n lines_per_page)
           @ '' from '' @ file_path @ '' ===\<newline>''
           @ ''Lines '' @ str_int ((page_num - 1) * lines_per_page + 1) @ ''-''
           @ str_int (min (page_num * lines_per_page) ?n)
           @ '' of '' @ str_int ?n @ ''\<newline>\<newline>''
           @ concat (map (\<lambda>(i, l).
                 fmt4d ((page_num - 1) * lines_per_page + 1 + int i) @ '' | '' @ l)
               (enumerate 0
                 (map ((!) ?lines)
                   [nat ((page_num - 1) * lines_per_page)..<
                    nat (min (page_num * lines_per_page) ?n)])))), w')"
    if a: "1 \<le> lines_per_page \<and> 1 \<le> page_num \<and> page_num \<le> total_pages ?n lines_per_page"
  proof -
    have nz: "lines_per_page \<noteq> 0" using a by auto
    have inr: "\<not> (page_num < 1 \<or> page_num > total_pages ?n lines_per_page)" using a by simp
    have "read_markdown_pages_text file_path ?lines (Some page_num) lines_per_page
        = Inr (''=== Page '' @ str_int page_num @ ''/''
            @ str_int (total_pages ?n lines_per_page)
            @ '' from '' @ file_path @ '' ===\<newline>''
            @ ''Lines '' @ str_int ((page_num - 1) * lines_per_page + 1) @ ''-''
            @ str_int (min (page_num * lines_per_page) ?n) @ '' of ''
            @ str_int ?n @ ''\<newline>\<newline>''
            @ numbered ((page_num - 1) * lines_per_page + 1)
                (page_lines ?lines page_num lines_per_page))"
      unfolding read_markdown_pages_text_def Let_def
      using nz inr by (simp only: if_False option.case)
    moreover have "page_lines ?lines page_num lines_per_page
        = map ((!) ?lines) [nat ((page_num - 1) * lines_per_page)..<
                            nat (min (page_num * lines_per_page) ?n)]"
      using page_lines_nth[of lines_per_page page_num ?lines] a by simp
    ultimately show ?thesis unfolding pt by (simp only: sum.case numbered_def)
  qed
qed

text \<open>
  Claim C6 as stated fails on a file of five lines read two lines a page (three pages):
  page 4 and page 0 are not moved to the nearest page, they are refused; and a start line
  beyond the last line is refused as well.
\<close>

theorem read_markdown_range_counterexample:
  "length five_lines = 5 \<and> total_pages 5 2 = 3
   \<and> read_markdown_pages_text ''f.md'' five_lines (Some 4) 2
       = Inr ''Error: Page 4 is out of range. File has 3 pages.''
   \<and> read_markdown_pages_text ''f.md'' five_lines (Some 0) 2
       = Inr ''Error: Page 0 is out of range. File has 3 pages.''
   \<and> read_markdown_lines_text ''f.md'' five_lines 9 (Some 12)
       = Inr ''Error: Start line 9 is beyond file length (5 lines)''
   \<and> readlines (concat five_lines) = five_lines
   \<and> read_markdown_pages sim_os ''/papers/five.md'' (Some 4) 2 paper_world
       = (Inr ''Error: Page 4 is out of range. File has 3 pages.'', paper_world)
   \<and> read_markdown_pages sim_os ''/papers/five.md'' (Some 0) 2 paper_world
       = (Inr ''Error: Page 0 is out of range. File has 3 pages.'', paper_world)
   \<and> read_markdown_lines sim_os ''/papers/five.md'' 9 (Some 12) paper_world
       = (Inr ''Error: Start line 9 is beyond file length (5 lines)'', paper_world)"
  by code_simp

theorem read_markdown_range_bounds_witness:
  "os_path_exists sim_os ''/papers/five.md'' paper_world
   \<and> open_read sim_os ''/papers/five.md'' paper_world
       = (Inr ''a\<newline>b\<newline>c\<newline>d\<newline>e\<newline>'', paper_world)
   \<and> int (length (readlines ''a\<newline>b\<newline>c\<newline>d\<newline>e\<newline>'')) = 5
   \<and> read_markdown_lines sim_os ''/papers/five.md'' 4 None paper_world
       = (Inr (''=== Lines 4-5 from /papers/five.md ===\<newline>Total file lines: 5\<newline>\<newline>''
            @ ''   4 | d\<newline>   5 | e\<newline>''), paper_world)
   \<and> read_markdown_lines sim_os ''/papers/five.md'' 2 (Some 99) paper_world
       = (Inr (''=== Lines 2-5 from /papers/five.md ===\<newline>Total file lines: 5\<newline>\<newline>''
            @ ''   2 | b\<newline>   3 | c\<newline>   4 | d\<newline>   5 | e\<newline>''),
          paper_world)
   \<and> read_markdown_lines sim_os ''/papers/five.md'' 9 (Some 12) paper_world
       = (Inr ''Error: Start line 9 is beyond file length (5 lines)'', paper_world)
   \<and> read_markdown_pages sim_os ''/papers/five.md'' (Some 4) 2 paper_world
       = (Inr ''Error: Page 4 is out of range. File has 3 pages.'', paper_world)
   \<and> read_markdown_pages sim_os ''/papers/five.md'' (Some 3) 2 paper_world
       = (Inr (''=== Page 3/3 from /papers/five.md ===\<newline>Lines 5-5 of 5\<newline>\<newline>''
            @ ''   5 | e\<newline>''), paper_world)"
proof -
  let ?c = "''a\<newline>b\<newline>c\<newline>d\<newline>e\<newline>''"
  let ?f = "''/papers/five.md''"
  have h1: "os_path_exists sim_os ?f paper_world" by code_simp
  have h2: "open_read sim_os ?f paper_world = (Inr ?c, paper_world)" by code_simp
  have n: "int (length (readlines ?c)) = 5" by code_simp
  have tp: "total_pages 5 2 = 3" by code_simp
  note t1 = read_markdown_range_bounds[OF h1 h2, of 4 99 "Some 12" 2 4]
  note t2 = read_markdown_range_bounds[OF h1 h2, of 2 99 "Some 12" 2 3]
  note t3 = read_markdown_range_bounds[OF h1 h2, of 9 99 "Some 12" 2 4]
  have a1: "read_markdown_lines sim_os ?f 4 None paper_world
      = (Inr (''=== Lines '' @ str_int 4 @ ''-'' @ str_int (int (length (readlines ?c)))
           @ '' from '' @ ?f @ '' ===\<newline>''
           @ ''Total file lines: '' @ str_int (int (length (readlines ?c)))
           @ ''\<newline>\<newline>''
           @ concat (map (\<lambda>(i, l). fmt4d (4 + int i) @ '' | '' @ l)
               (enumerate 0 (map ((!) (readlines ?c)) [nat (4 - 1)..<length (readlines ?c)])))),
         paper_world)"
    using t1 n by simp
  have e1: "''=== Lines '' @ str_int 4 @ ''-'' @ str_int (int (length (readlines ?c)))
           @ '' from '' @ ?f @ '' ===\<newline>''
           @ ''Total file lines: '' @ str_int (int (length (readlines ?c)))
           @ ''\<newline>\<newline>''
           @ concat (map (\<lambda>(i, l). fmt4d (4 + int i) @ '' | '' @ l)
               (enumerate 0 (map ((!) (readlines ?c)) [nat (4 - 1)..<length (readlines ?c)])))
      = ''=== Lines 4-5 from /papers/five.md ===\<newline>Total file lines: 5\<newline>\<newline>''
            @ ''   4 | d\<newline>   5 | e\<newline>''"
    by code_simp
  have a2: "read_markdown_lines sim_os ?f 2 (Some 99) paper_world
      = (Inr (''=== Lines '' @ str_int 2 @ ''-''
           @ str_int (min (int (length (readlines ?c))) 99)
           @ '' from '' @ ?f @ '' ===\<newline>''
           @ ''Total file lines: '' @ str_int (int (length (readlines ?c)))
           @ ''\<newline>\<newline>''
           @ concat (map (\<lambda>(i, l). fmt4d (2 + int i) @ '' | '' @ l)
               (enumerate 0
                 (map ((!) (readlines ?c))
                   [nat (2 - 1)..<nat (min (int (length (readlines ?c))) 99)])))),
         paper_world)"
    using t2 n by simp
  have e2: "''=== Lines '' @ str_int 2 @ ''-''
           @ str_int (min (int (length (readlines ?c))) 99)
           @ '' from '' @ ?f @ '' ===\<newline>''
           @ ''Total file lines: '' @ str_int (int (length (readlines ?c)))
           @ ''\<newline>\<newline>''
           @ concat (map (\<lambda>(i, l). fmt4d (2 + int i) @ '' | '' @ l)
               (enumerate 0
                 (map ((!) (readlines ?c))
                   [nat (2 - 1)..<nat (min (int (length (readlines ?c))) 99)])))
      = ''=== Lines 2-5 from /papers/five.md ===\<newline>Total file lines: 5\<newline>\<newline>''
            @ ''   2 | b\<newline>   3 | c\<newline>   4 | d\<newline>   5 | e\<newline>''"
    by code_simp
  have a3: "read_markdown_lines sim_os ?f 9 (Some 12) paper_world
      = (Inr (''Error: Start line '' @ str_int 9 @ '' is beyond file length (''
           @ str_int (int (length (readlines ?c))) @ '' lines)''), paper_world)"
    using t3 n by simp
  have e3: "''Error: Start line '' @ str_int 9 @ '' is beyond file length (''
           @ str_int (int (length (readlines ?c))) @ '' lines)''
      = ''Error: Start line 9 is beyond file length (5 lines)''"
    by code_simp
  have a4: "read_markdown_pages sim_os ?f (Some 4) 2 paper_world
      = (Inr (''Error: Page '' @ str_int 4 @ '' is out of range. File has ''
           @ str_int (total_pages (int (length (readlines ?c))) 2) @ '' pages.''), paper_world)"
    using t1 n tp by simp
  have e4: "''Error: Page '' @ str_int 4 @ '' is out of range. File has ''
           @ str_int (total_pages (int (length (readlines ?c))) 2) @ '' pages.''
      = ''Error: Page 4 is out of range. File has 3 pages.''"
    by code_simp
  have a5: "read_markdown_pages sim_os ?f (Some 3) 2 paper_world
      = (Inr (''=== Page '' @ str_int 3 @ ''/''
           @ str_int (total_pages (int (length (readlines ?c))) 2)
           @ '' from '' @ ?f @ '' ===\<newline>''
           @ ''Lines '' @ str_int ((3 - 1) * 2 + 1) @ ''-''
           @ str_int (min (3 * 2) (int (length (readlines ?c))))
           @ '' of '' @ str_int (int (length (readlines ?c)))
           @ ''\<newline>\<newline>''
           @ concat (map (\<lambda>(i, l). fmt4d ((3 - 1) * 2 + 1 + int i) @ '' | '' @ l)
               (enumerate 0
                 (map ((!) (readlines ?c))
                   [nat ((3 - 1) * 2)..<nat (min (3 * 2) (int (length (readlines ?c))))])))),
         paper_world)"
    using t2 n tp by simp
  have e5: "''=== Page '' @ str_int 3 @ ''/''
           @ str_int (total_pages (int (length (readlines ?c))) 2)
           @ '' from '' @ ?f @ '' ===\<newline>''
           @ ''Lines '' @ str_int ((3 - 1) * 2 + 1) @ ''-''
           @ str_int (min (3 * 2) (int (length (readlines ?c))))
           @ '' of '' @ str_int (int (length (readlines ?c)))
           @ ''\<newline>\<newline>''
           @ concat (map (\<lambda>(i, l). fmt4d ((3 - 1) * 2 + 1 + int i) @ '' | '' @ l)
               (enumerate 0
                 (map ((!) (readlines ?c))
                   [nat ((3 - 1) * 2)..<nat (min (3 * 2) (int (length (readlines ?c))))])))
      = ''=== Page 3/3 from /papers/five.md ===\<newline>Lines 5-5 of 5\<newline>\<newline>''
            @ ''   5 | e\<newline>''"
    by code_simp
  show ?thesis
    using h1 h2 n a1 a2 a3 a4 a5 unfolding e1 e2 e3 e4 e5 by blast
qed

section \<open>Properties of the tools on every platform\<close>

subsection \<open>Exceptions become texts\<close>

lemma io_try_Inr: "m w = (Inr x, w') \<Longrightarrow> io_try m h w = (Inr x, w')"
  by (simp add: io_try_def)

lemma io_try_Inl: "m w = (Inl e, w') \<Longrightarrow> io_try m h w = h e w'"
  by (simp add: io_try_def)

lemmas tool_defs =
  read_file_def write_file_def list_directory_def create_directory_def
  delete_file_or_path_def copy_file_or_path_def move_file_or_path_def get_file_info_def
  search_files_def get_current_working_directory_def change_working_directory_def
  execute_command_def execute_command_with_cwd_def check_command_exists_def
  get_environment_variable_def set_environment_variable_def list_environment_variables_def
  get_current_user_def read_markdown_lines_def read_markdown_pages_def
  read_markdown_sections_def search_markdown_content_def

lemma interactive_returns:
  assumes "execute_interactive_command_body os command w = (Inr s, w')"
  shows "execute_interactive_command os command w = (Inr s, w')"
  using assms
  by (auto simp: execute_interactive_command_body_def execute_interactive_command_def
      io_bind_def io_try_def split: prod.splits sum.splits)

lemma interactive_error:
  assumes "execute_interactive_command_body os command w = (Inl e, w')"
    and "\<not> is_TimeoutExpired e"
  shows "execute_interactive_command os command w
    = (Inr (''Error executing interactive command: '' @ str_exn e), w')"
  using assms
  by (auto simp: execute_interactive_command_body_def execute_interactive_command_def
      interactive_except_def io_bind_def io_try_def io_return_def split: prod.splits sum.splits)

lemma call_tool_returns:
  assumes "try_body os call w = (Inr s, w')"
  shows "call_tool os call w = (Inr s, w')"
proof (cases call)
  case (Execute_interactive_command c)
  then show ?thesis using assms interactive_returns by simp
qed (use assms in \<open>simp_all add: tool_defs io_try_Inr\<close>)

lemma call_tool_error:
  assumes "try_body os call w = (Inl e, w')" and "\<not> (is_TimeoutExpired e \<and> runs_command call)"
  shows "call_tool os call w = (Inr (error_text call @ '': '' @ str_exn e), w')"
proof (cases call)
  case (Execute_interactive_command c)
  then show ?thesis using assms interactive_error by simp
qed (use assms in \<open>simp_all add: tool_defs io_try_Inl io_return_def\<close>)

lemma error_text_prefix: "prefix ''Error '' (error_text call)"
  by (cases call) simp_all

text \<open>
  Claim C4, amended. For every tool of the three registries, every platform and every
  state: when the body of the \<^verbatim>\<open>try\<close> returns a text, the tool returns it; when the body
  raises an exception \<open>e\<close>, the tool returns the text
  \<^verbatim>\<open>Error <doing X>: <str(e)>\<close> and raises nothing, except for
  \<^verbatim>\<open>subprocess.TimeoutExpired\<close> in the three tools that run a command, where the text is
  \<^verbatim>\<open>Command timed out after 30 seconds: <command>\<close> or, for
  \<^verbatim>\<open>execute_interactive_command\<close> once \<^verbatim>\<open>process.kill()\<close> has returned,
  \<^verbatim>\<open>Interactive command timed out after 10 seconds: <command>\<close>.
\<close>

theorem tools_return_strings:
  "(try_body os call w = (Inr s, w') \<longrightarrow> call_tool os call w = (Inr s, w'))
   \<and> (try_body os call w = (Inl e, w') \<and> \<not> (is_TimeoutExpired e \<and> runs_command call) \<longrightarrow>
        call_tool os call w = (Inr (error_text call @ '': '' @ str_exn e), w'))
   \<and> prefix ''Error '' (error_text call)
   \<and> (execute_command_body os command w = (Inl e, w') \<and> is_TimeoutExpired e \<longrightarrow>
        execute_command os command w
          = (Inr (''Command timed out after 30 seconds: '' @ command), w'))
   \<and> (execute_command_with_cwd_body os command working_dir w = (Inl e, w')
        \<and> is_TimeoutExpired e \<longrightarrow>
        execute_command_with_cwd os command working_dir w
          = (Inr (''Command timed out after 30 seconds: '' @ command), w'))
   \<and> (subprocess_Popen os command w = (Inr process, w1)
        \<and> interactive_after_Popen os process w1 = (Inl e, w2) \<and> is_TimeoutExpired e
        \<and> process_kill os process w2 = (Inr (), w3) \<longrightarrow>
        execute_interactive_command os command w
          = (Inr (''Interactive command timed out after 10 seconds: '' @ command), w3))"
proof (intro conjI impI)
  show "call_tool os call w = (Inr s, w')" if "try_body os call w = (Inr s, w')"
    using that by (rule call_tool_returns)
  show "call_tool os call w = (Inr (error_text call @ '': '' @ str_exn e), w')"
    if "try_body os call w = (Inl e, w') \<and> \<not> (is_TimeoutExpired e \<and> runs_command call)"
    using that call_tool_error[of os call w e w'] by simp
  show "prefix ''Error '' (error_text call)" by (rule error_text_prefix)
  show "execute_command os command w
      = (Inr (''Command timed out after 30 seconds: '' @ command), w')"
    if "execute_command_body os command w = (Inl e, w') \<and> is_TimeoutExpired e"
    using that by (simp add: execute_command_def io_try_Inl io_return_def)
  show "execute_command_with_cwd os command working_dir w
      = (Inr (''Command timed out after 30 seconds: '' @ command), w')"
    if "execute_command_with_cwd_body os command working_dir w = (Inl e, w')
        \<and> is_TimeoutExpired e"
    using that by (simp add: execute_command_with_cwd_def io_try_Inl io_return_def)
  show "execute_interactive_command os command w
      = (Inr (''Interactive command timed out after 10 seconds: '' @ command), w3)"
    if "subprocess_Popen os command w = (Inr process, w1)
        \<and> interactive_after_Popen os process w1 = (Inl e, w2) \<and> is_TimeoutExpired e
        \<and> process_kill os process w2 = (Inr (), w3)"
    using that
    by (simp add: execute_interactive_command_def io_try_Inl interactive_except_def
        io_bind_def io_return_def)
qed

text \<open>
  Claim C4 as stated fails on a command that runs longer than thirty seconds: the
  exception \<^verbatim>\<open>TimeoutExpired\<close> raised in the body of \<^verbatim>\<open>execute_command\<close> becomes a text
  that does not begin with \<^verbatim>\<open>Error\<close>.
\<close>

theorem tools_return_strings_counterexample:
  "execute_command_body sim_os ''sleep 60'' demo_world
     = (Inl (TimeoutExpired ''Command 'sleep 60' timed out after 30 seconds''), demo_world)
   \<and> call_tool sim_os (Execute_command ''sleep 60'') demo_world
     = (Inr ''Command timed out after 30 seconds: sleep 60'', demo_world)
   \<and> \<not> prefix ''Error'' ''Command timed out after 30 seconds: sleep 60''"
  by code_simp

theorem tools_return_strings_witness:
  "try_body sim_os (Read_file ''/tmp/notes.txt'') demo_world
     = (Inr ''Hello, World!\<newline>This is a test file.'', demo_world)
   \<and> call_tool sim_os (Read_file ''/tmp/notes.txt'') demo_world
     = (Inr ''Hello, World!\<newline>This is a test file.'', demo_world)
   \<and> try_body sim_os (Read_file ''/tmp/nope'') demo_world = (Inl (enoent ''/tmp/nope''), demo_world)
   \<and> \<not> (is_TimeoutExpired (enoent ''/tmp/nope'') \<and> runs_command (Read_file ''/tmp/nope''))
   \<and> call_tool sim_os (Read_file ''/tmp/nope'') demo_world
     = (Inr (''Error reading file: [Errno 2] No such file or directory: '' @ quoted ''/tmp/nope''),
        demo_world)
   \<and> execute_command_with_cwd_body sim_os ''sleep 60'' ''/tmp'' demo_world
     = (Inl (TimeoutExpired ''Command 'sleep 60' timed out after 30 seconds''), demo_world)
   \<and> execute_command_with_cwd sim_os ''sleep 60'' ''/tmp'' demo_world
     = (Inr ''Command timed out after 30 seconds: sleep 60'', demo_world)
   \<and> subprocess_Popen sim_os ''sleep 60'' demo_world
     = (Inr 0, demo_world\<lparr>sim_started := [''sleep 60'']\<rparr>)
   \<and> process_kill sim_os 0 (demo_world\<lparr>sim_started := [''sleep 60'']\<rparr>)
     = (Inr (), demo_world\<lparr>sim_started := [''sleep 60''], sim_killed := [0]\<rparr>)
   \<and> execute_interactive_command sim_os ''sleep 60'' demo_world
     = (Inr ''Interactive command timed out after 10 seconds: sleep 60'',
        demo_world\<lparr>sim_started := [''sleep 60''], sim_killed := [0]\<rparr>)"
proof -
  let ?t30 = "TimeoutExpired ''Command 'sleep 60' timed out after 30 seconds''"
  let ?t10 = "TimeoutExpired ''Command 'sleep 60' timed out after 10 seconds''"
  let ?w1 = "demo_world\<lparr>sim_started := [''sleep 60'']\<rparr>"
  let ?w3 = "demo_world\<lparr>sim_started := [''sleep 60''], sim_killed := [0]\<rparr>"
  have b1: "try_body sim_os (Read_file ''/tmp/notes.txt'') demo_world
     = (Inr ''Hello, World!\<newline>This is a test file.'', demo_world)" by code_simp
  have b2: "try_body sim_os (Read_file ''/tmp/nope'') demo_world
     = (Inl (enoent ''/tmp/nope''), demo_world)" by code_simp
  have n2: "\<not> (is_TimeoutExpired (enoent ''/tmp/nope'') \<and> runs_command (Read_file ''/tmp/nope''))"
    by simp
  have b3: "execute_command_with_cwd_body sim_os ''sleep 60'' ''/tmp'' demo_world
     = (Inl ?t30, demo_world)" by code_simp
  have b4: "subprocess_Popen sim_os ''sleep 60'' demo_world = (Inr 0, ?w1)" by code_simp
  have b5: "interactive_after_Popen sim_os 0 ?w1 = (Inl ?t10, ?w1)" by code_simp
  have b6: "process_kill sim_os 0 ?w1 = (Inr (), ?w3)" by code_simp
  have m: "error_text (Read_file ''/tmp/nope'') @ '': '' @ str_exn (enoent ''/tmp/nope'')
      = ''Error reading file: [Errno 2] No such file or directory: '' @ quoted ''/tmp/nope''"
    by code_simp
  note t1 = tools_return_strings[of sim_os "Read_file ''/tmp/notes.txt''" demo_world
      "''Hello, World!\<newline>This is a test file.''" demo_world ?t30 "''sleep 60''" "''/tmp''"
      0 ?w1 ?w1 ?w3]
  note t2 = tools_return_strings[of sim_os "Read_file ''/tmp/nope''" demo_world
      "[]" demo_world "enoent ''/tmp/nope''" "''sleep 60''" "''/tmp''" 0 ?w1 ?w1 ?w3]
  note t3 = tools_return_strings[of sim_os "Read_file ''/tmp/notes.txt''" demo_world
      "''Hello, World!\<newline>This is a test file.''" demo_world ?t10 "''sleep 60''" "''/tmp''"
      0 ?w1 ?w1 ?w3]
  have c1: "call_tool sim_os (Read_file ''/tmp/notes.txt'') demo_world
     = (Inr ''Hello, World!\<newline>This is a test file.'', demo_world)"
    using t1 b1 by blast
  have c2: "call_tool sim_os (Read_file ''/tmp/nope'') demo_world
     = (Inr (error_text (Read_file ''/tmp/nope'') @ '': '' @ str_exn (enoent ''/tmp/nope'')),
        demo_world)"
    using t2 b2 n2 by blast
  have c3: "execute_command_with_cwd sim_os ''sleep 60'' ''/tmp'' demo_world
     = (Inr (''Command timed out after 30 seconds: '' @ ''sleep 60''), demo_world)"
    using t1 b3 by simp
  have c4: "execute_interactive_command sim_os ''sleep 60'' demo_world
     = (Inr (''Interactive command timed out after 10 seconds: '' @ ''sleep 60''), ?w3)"
    using t3 b4 b5 b6 by simp
  show ?thesis
    using b1 c1 b2 n2 c2 b3 c3 b4 b6 c4 unfolding m by simp
qed

subsection \<open>Time limits of the command tools\<close>





subsection \<open>Checks before the call of the library\<close>

lemmas io_defs = io_try_def io_bind_def io_get_def io_return_def

text \<open>
  Claim C7, amended. \<^verbatim>\<open>list_directory\<close>, \<^verbatim>\<open>delete_file_or_path\<close>,
  \<^verbatim>\<open>copy_file_or_path\<close>, \<^verbatim>\<open>move_file_or_path\<close> (for the source), \<^verbatim>\<open>get_file_info\<close>,
  \<^verbatim>\<open>search_files\<close>, \<^verbatim>\<open>execute_command_with_cwd\<close> and the four markdown tools test
  \<^verbatim>\<open>os.path.exists\<close> first: on a path that does not exist they return their
  \<^verbatim>\<open>does not exist\<close> text, whatever the rest of the platform does, and leave the state
  as it is. \<^verbatim>\<open>list_directory\<close>, \<^verbatim>\<open>search_files\<close> and \<^verbatim>\<open>execute_command_with_cwd\<close>
  then test \<^verbatim>\<open>os.path.isdir\<close> and return \<^verbatim>\<open>'<path>' is not a directory\<close>.
  \<^verbatim>\<open>read_file\<close>, \<^verbatim>\<open>write_file\<close>, \<^verbatim>\<open>create_directory\<close> and
  \<^verbatim>\<open>change_working_directory\<close> test nothing: their first step is the call of the
  library, and a path that is missing or of the wrong kind shows as the exception of that
  call, in the text \<^verbatim>\<open>Error <doing X>: <str(e)>\<close>.
\<close>

theorem path_preconditions_checked:
  "(\<not> os_path_exists os p w \<longrightarrow>
      list_directory os p w = (Inr (''Directory '' @ quoted p @ '' does not exist''), w)
    \<and> delete_file_or_path os p w = (Inr (''Path '' @ quoted p @ '' does not exist''), w)
    \<and> copy_file_or_path os p dst w
        = (Inr (''Source path '' @ quoted p @ '' does not exist''), w)
    \<and> move_file_or_path os p dst w
        = (Inr (''Source path '' @ quoted p @ '' does not exist''), w)
    \<and> get_file_info os p w = (Inr (''Path '' @ quoted p @ '' does not exist''), w)
    \<and> search_files os p pattern w
        = (Inr (''Directory '' @ quoted p @ '' does not exist''), w)
    \<and> execute_command_with_cwd os command p w
        = (Inr (''Working directory '' @ quoted p @ '' does not exist''), w)
    \<and> read_markdown_lines os p start_line end_line w
        = (Inr (''Error: File '' @ quoted p @ '' does not exist''), w)
    \<and> read_markdown_pages os p page_num lines_per_page w
        = (Inr (''Error: File '' @ quoted p @ '' does not exist''), w)
    \<and> read_markdown_sections os p section_name w
        = (Inr (''Error: File '' @ quoted p @ '' does not exist''), w)
    \<and> search_markdown_content os p search_term context_lines w
        = (Inr (''Error: File '' @ quoted p @ '' does not exist''), w))
   \<and> (os_path_exists os p w \<and> \<not> os_path_isdir os p w \<longrightarrow>
      list_directory os p w = (Inr (quoted p @ '' is not a directory''), w)
    \<and> search_files os p pattern w = (Inr (quoted p @ '' is not a directory''), w)
    \<and> execute_command_with_cwd os command p w
        = (Inr (quoted p @ '' is not a directory''), w))
   \<and> read_file os p w
       = (case open_read os p w of
            (Inl e, w') \<Rightarrow> (Inr (''Error reading file: '' @ str_exn e), w')
          | (Inr text, w') \<Rightarrow> (Inr text, w'))
   \<and> write_file os p content w
       = (case os_makedirs os (dirname p) w of
            (Inl e, w') \<Rightarrow> (Inr (''Error writing file: '' @ str_exn e), w')
          | (Inr u, w') \<Rightarrow>
              (case open_write os p content w' of
                 (Inl e, w'') \<Rightarrow> (Inr (''Error writing file: '' @ str_exn e), w'')
               | (Inr u', w'') \<Rightarrow> (Inr (''Successfully wrote to '' @ p), w'')))
   \<and> create_directory os p w
       = (case os_makedirs os p w of
            (Inl e, w') \<Rightarrow> (Inr (''Error creating directory: '' @ str_exn e), w')
          | (Inr u, w') \<Rightarrow> (Inr (''Successfully created directory '' @ quoted p), w'))
   \<and> change_working_directory os p w
       = (case os_chdir os p w of
            (Inl e, w') \<Rightarrow> (Inr (''Error changing directory: '' @ str_exn e), w')
          | (Inr u, w') \<Rightarrow>
              (case os_getcwd os w' of
                 (Inl e, w'') \<Rightarrow> (Inr (''Error changing directory: '' @ str_exn e), w'')
               | (Inr cwd, w'') \<Rightarrow>
                   (Inr (''Successfully changed directory to '' @ quoted p
                      @ ''. Current directory: '' @ cwd), w'')))"
proof (intro conjI impI)
  assume a: "\<not> os_path_exists os p w"
  show "list_directory os p w = (Inr (''Directory '' @ quoted p @ '' does not exist''), w)"
    using a by (simp add: list_directory_def list_directory_body_def io_defs)
  show "delete_file_or_path os p w = (Inr (''Path '' @ quoted p @ '' does not exist''), w)"
    using a by (simp add: delete_file_or_path_def delete_file_or_path_body_def io_defs)
  show "copy_file_or_path os p dst w
      = (Inr (''Source path '' @ quoted p @ '' does not exist''), w)"
    using a by (simp add: copy_file_or_path_def copy_file_or_path_body_def io_defs)
  show "move_file_or_path os p dst w
      = (Inr (''Source path '' @ quoted p @ '' does not exist''), w)"
    using a by (simp add: move_file_or_path_def move_file_or_path_body_def io_defs)
  show "get_file_info os p w = (Inr (''Path '' @ quoted p @ '' does not exist''), w)"
    using a by (simp add: get_file_info_def get_file_info_body_def io_defs)
  show "search_files os p pattern w
      = (Inr (''Directory '' @ quoted p @ '' does not exist''), w)"
    using a by (simp add: search_files_def search_files_body_def io_defs)
  show "execute_command_with_cwd os command p w
      = (Inr (''Working directory '' @ quoted p @ '' does not exist''), w)"
    using a by (simp add: execute_command_with_cwd_def execute_command_with_cwd_body_def io_defs)
  show "read_markdown_lines os p start_line end_line w
      = (Inr (''Error: File '' @ quoted p @ '' does not exist''), w)"
    using a by (simp add: read_markdown_lines_def read_markdown_lines_body_def io_defs)
  show "read_markdown_pages os p page_num lines_per_page w
      = (Inr (''Error: File '' @ quoted p @ '' does not exist''), w)"
    using a by (simp add: read_markdown_pages_def read_markdown_pages_body_def io_defs)
  show "read_markdown_sections os p section_name w
      = (Inr (''Error: File '' @ quoted p @ '' does not exist''), w)"
    using a by (simp add: read_markdown_sections_def read_markdown_sections_body_def io_defs)
  show "search_markdown_content os p search_term context_lines w
      = (Inr (''Error: File '' @ quoted p @ '' does not exist''), w)"
    using a by (simp add: search_markdown_content_def search_markdown_content_body_def io_defs)
next
  assume b: "os_path_exists os p w \<and> \<not> os_path_isdir os p w"
  show "list_directory os p w = (Inr (quoted p @ '' is not a directory''), w)"
    using b by (simp add: list_directory_def list_directory_body_def io_defs)
  show "search_files os p pattern w = (Inr (quoted p @ '' is not a directory''), w)"
    using b by (simp add: search_files_def search_files_body_def io_defs)
  show "execute_command_with_cwd os command p w
      = (Inr (quoted p @ '' is not a directory''), w)"
    using b by (simp add: execute_command_with_cwd_def execute_command_with_cwd_body_def io_defs)
next
  show "read_file os p w
       = (case open_read os p w of
            (Inl e, w') \<Rightarrow> (Inr (''Error reading file: '' @ str_exn e), w')
          | (Inr text, w') \<Rightarrow> (Inr text, w'))"
    by (simp add: read_file_def read_file_body_def io_defs split: prod.splits sum.splits)
  show "write_file os p content w
       = (case os_makedirs os (dirname p) w of
            (Inl e, w') \<Rightarrow> (Inr (''Error writing file: '' @ str_exn e), w')
          | (Inr u, w') \<Rightarrow>
              (case open_write os p content w' of
                 (Inl e, w'') \<Rightarrow> (Inr (''Error writing file: '' @ str_exn e), w'')
               | (Inr u', w'') \<Rightarrow> (Inr (''Successfully wrote to '' @ p), w'')))"
    by (simp add: write_file_def write_file_body_def io_defs split: prod.splits sum.splits)
  show "create_directory os p w
       = (case os_makedirs os p w of
            (Inl e, w') \<Rightarrow> (Inr (''Error creating directory: '' @ str_exn e), w')
          | (Inr u, w') \<Rightarrow> (Inr (''Successfully created directory '' @ quoted p), w'))"
    by (simp add: create_directory_def create_directory_body_def io_defs
        split: prod.splits sum.splits)
  show "change_working_directory os p w
       = (case os_chdir os p w of
            (Inl e, w') \<Rightarrow> (Inr (''Error changing directory: '' @ str_exn e), w')
          | (Inr u, w') \<Rightarrow>
              (case os_getcwd os w' of
                 (Inl e, w'') \<Rightarrow> (Inr (''Error changing directory: '' @ str_exn e), w'')
               | (Inr cwd, w'') \<Rightarrow>
                   (Inr (''Successfully changed directory to '' @ quoted p
                      @ ''. Current directory: '' @ cwd), w'')))"
    by (simp add: change_working_directory_def change_working_directory_body_def io_defs
        split: prod.splits sum.splits)
qed

text \<open>
  Claim C7 as stated fails for \<^verbatim>\<open>read_file\<close> and \<^verbatim>\<open>write_file\<close>: on a path that does
  not exist \<^verbatim>\<open>read_file\<close> returns what \<^verbatim>\<open>open\<close> raised (another platform, another
  text), and \<^verbatim>\<open>write_file\<close> below a path that is a file returns what \<^verbatim>\<open>os.makedirs\<close>
  raised.
\<close>

theorem path_preconditions_counterexample:
  "\<not> os_path_exists sim_os ''/tmp/nope'' demo_world
   \<and> read_file sim_os ''/tmp/nope'' demo_world
     = (Inr (''Error reading file: [Errno 2] No such file or directory: ''
          @ quoted ''/tmp/nope''), demo_world)
   \<and> read_file (sim_os\<lparr>open_read := \<lambda>p. io_raise (OSError ''Input/output error'')\<rparr>)
       ''/tmp/nope'' demo_world
     = (Inr ''Error reading file: Input/output error'', demo_world)
   \<and> os_path_exists sim_os ''/tmp/notes.txt'' demo_world
   \<and> \<not> os_path_isdir sim_os ''/tmp/notes.txt'' demo_world
   \<and> write_file sim_os ''/tmp/notes.txt/x'' ''text'' demo_world
     = (Inr (''Error writing file: [Errno 17] File exists: '' @ quoted ''/tmp/notes.txt''),
        demo_world)"
  by code_simp

theorem path_preconditions_checked_witness:
  "\<not> os_path_exists sim_os ''/tmp/nope'' demo_world
   \<and> list_directory sim_os ''/tmp/nope'' demo_world
     = (Inr (''Directory '' @ quoted ''/tmp/nope'' @ '' does not exist''), demo_world)
   \<and> delete_file_or_path sim_os ''/tmp/nope'' demo_world
     = (Inr (''Path '' @ quoted ''/tmp/nope'' @ '' does not exist''), demo_world)
   \<and> read_markdown_sections sim_os ''/tmp/nope'' None demo_world
     = (Inr (''Error: File '' @ quoted ''/tmp/nope'' @ '' does not exist''), demo_world)
   \<and> os_path_exists sim_os ''/tmp/notes.txt'' demo_world
   \<and> \<not> os_path_isdir sim_os ''/tmp/notes.txt'' demo_world
   \<and> list_directory sim_os ''/tmp/notes.txt'' demo_world
     = (Inr (quoted ''/tmp/notes.txt'' @ '' is not a directory''), demo_world)
   \<and> execute_command_with_cwd sim_os ''echo hi'' ''/tmp/notes.txt'' demo_world
     = (Inr (quoted ''/tmp/notes.txt'' @ '' is not a directory''), demo_world)"
proof -
  have a: "\<not> os_path_exists sim_os ''/tmp/nope'' demo_world" by code_simp
  have b: "os_path_exists sim_os ''/tmp/notes.txt'' demo_world"
    "\<not> os_path_isdir sim_os ''/tmp/notes.txt'' demo_world" by code_simp+
  note t1 = path_preconditions_checked[of sim_os "''/tmp/nope''" demo_world "''/tmp/x''"
      "''*''" "''echo hi''" 1 None None 50 None "''x''" 3 "''text''"]
  note t2 = path_preconditions_checked[of sim_os "''/tmp/notes.txt''" demo_world "''/tmp/x''"
      "''*''" "''echo hi''" 1 None None 50 None "''x''" 3 "''text''"]
  show ?thesis using a b t1 t2 by blast
qed

section \<open>Properties of the tools on the simulated platform\<close>

subsection \<open>Reading a file and writing it back\<close>












end
